theory Spec2Isabelle
  imports Main "HOL-Library.Multiset"
begin

section \<open>Data model: the two tables of the content-approval schema\<close>

text \<open>
  The schema is the one of \<^verbatim>\<open>supabase/migrations/20250225152712_billowing_paper.sql\<close>
  (tables \<^verbatim>\<open>profiles\<close> and \<^verbatim>\<open>content_items\<close>) extended by the migration
  that adds \<^verbatim>\<open>rejection_notes\<close> and \<^verbatim>\<open>rejected_at\<close>.
  A \<^verbatim>\<open>uuid\<close> is a natural number, a \<^verbatim>\<open>timestamptz\<close> an integer
  (milliseconds since the epoch), \<^verbatim>\<open>text\<close> a string. A column that is not declared
  \<^verbatim>\<open>NOT NULL\<close> (or \<^verbatim>\<open>PRIMARY KEY\<close>) holds an option, \<open>None\<close> being SQL's
  \<^verbatim>\<open>NULL\<close>. Both tables have columns \<^verbatim>\<open>id\<close>, \<^verbatim>\<open>created_at\<close> and
  \<^verbatim>\<open>updated_at\<close>, so the fields carry the prefix \<open>p_\<close> or \<open>c_\<close>.
\<close>

type_synonym uuid = nat
type_synonym timestamptz = int

record profile =
  p_id :: uuid
  p_email :: string
  p_full_name :: "string option"
  p_is_admin :: "bool option"
  p_created_at :: "timestamptz option"
  p_updated_at :: "timestamptz option"

text \<open>
  Modelled from the spec: the column \<^verbatim>\<open>title\<close> (``optional title''), which
  \<^verbatim>\<open>Dashboard.tsx\<close> reads and writes but no migration under the sources declares.
\<close>

record content_item =
  c_id :: uuid
  c_title :: "string option"
  c_caption :: string
  c_content_type :: string
  c_media_url :: string
  c_status :: "string option"
  c_schedule_date :: "timestamptz option"
  c_created_by :: "uuid option"
  c_assigned_to :: "uuid option"
  c_created_at :: "timestamptz option"
  c_updated_at :: "timestamptz option"
  c_rejection_notes :: "string option"
  c_rejected_at :: "timestamptz option"

text \<open>A row of \<^verbatim>\<open>auth.users\<close>, as far as \<^verbatim>\<open>handle_new_user\<close> reads it.\<close>

record auth_user =
  u_id :: uuid
  u_email :: "string option"
  u_meta_full_name :: "string option"

record db =
  auth_users :: "auth_user list"
  profiles :: "profile list"
  content_items :: "content_item list"

datatype row = ProfileRow profile | ContentRow content_item

datatype sql_error =
    undefined_column
  | cardinality_violation
  | duplicate_object
  | rls_violation
  | not_null_violation
  | check_violation
  | unique_violation
  | foreign_key_violation

section \<open>Three-valued logic\<close>

type_synonym tri = "bool option"

definition sql_eq :: "'a option \<Rightarrow> 'a option \<Rightarrow> tri" where
  "sql_eq a b = (case a of None \<Rightarrow> None
                 | Some x \<Rightarrow> (case b of None \<Rightarrow> None | Some y \<Rightarrow> Some (x = y)))"

definition sql_or :: "tri \<Rightarrow> tri \<Rightarrow> tri" where
  "sql_or a b = (if a = Some True \<or> b = Some True then Some True
                 else if a = None \<or> b = None then None else Some False)"

definition sql_and :: "tri \<Rightarrow> tri \<Rightarrow> tri" where
  "sql_and a b = (if a = Some False \<or> b = Some False then Some False
                  else if a = None \<or> b = None then None else Some True)"

definition or_result :: "sql_error + tri \<Rightarrow> sql_error + tri \<Rightarrow> sql_error + tri" where
  "or_result a b = (case a of Inl e \<Rightarrow> Inl e
                    | Inr x \<Rightarrow> (case b of Inl e \<Rightarrow> Inl e | Inr y \<Rightarrow> Inr (sql_or x y)))"

section \<open>Sessions, policies and the policy catalog\<close>

text \<open>
  Every policy of the migrations is \<^verbatim>\<open>TO authenticated\<close>. A request runs as
  \<open>anon\<close> or \<open>authenticated\<close>; the body of a \<^verbatim>\<open>SECURITY DEFINER\<close> function runs
  as the role that created it, here the role that ran the migrations and so owns both
  tables. Row security is enabled by \<^verbatim>\<open>ENABLE ROW LEVEL SECURITY\<close>, never forced,
  so the owner is exempt from it. \<open>auth_uid\<close> is \<^verbatim>\<open>auth.uid()\<close>: it reads the
  request's token and has the same value inside a function.
\<close>

datatype role = anon | authenticated | table_owner

record session =
  s_role :: role
  auth_uid :: "uuid option"

definition authenticated_as :: "uuid \<Rightarrow> session" where
  "authenticated_as u = \<lparr>s_role = authenticated, auth_uid = Some u\<rparr>"

definition as_definer :: "session \<Rightarrow> session" where
  "as_definer s = s\<lparr>s_role := table_owner\<rparr>"

datatype table_name = profiles_table | content_items_table

datatype command = SELECT | INSERT | UPDATE

text \<open>
  The boolean expressions that occur in the policies, one constructor for each form:
  \<^item> \<open>IdEqUid\<close>: \<^verbatim>\<open>id = auth.uid()\<close> (also written \<^verbatim>\<open>auth.uid() = id\<close>);
  \<^item> \<open>AssignedToEqUid\<close>: \<^verbatim>\<open>assigned_to = auth.uid()\<close>;
  \<^item> \<open>ExistsAdminProfile\<close>: \<^verbatim>\<open>EXISTS (SELECT 1 FROM profiles WHERE id = auth.uid() AND is_admin = true)\<close>;
  \<^item> \<open>SelectIsAdmin\<close>: \<^verbatim>\<open>(SELECT is_admin FROM profiles WHERE id = auth.uid())\<close>;
  \<^item> \<open>CallIsAdmin\<close>: \<^verbatim>\<open>is_admin()\<close>.
\<close>

datatype expr =
    IdEqUid
  | AssignedToEqUid
  | Or expr expr
  | ExistsAdminProfile
  | SelectIsAdmin
  | CallIsAdmin

record policy =
  pol_name :: string
  pol_table :: table_name
  pol_cmd :: command
  pol_to :: role
  pol_using :: "expr option"
  pol_with_check :: "expr option"

record catalog =
  rls_enabled :: "table_name list"
  policies :: "policy list"

section \<open>The migrations\<close>

datatype stmt =
    EnableRls table_name
  | CreatePolicy policy
  | DropPolicyIfExists string table_name

fun apply_stmt :: "catalog \<Rightarrow> stmt \<Rightarrow> sql_error + catalog" where
  "apply_stmt cat (EnableRls t) = Inr (cat\<lparr>rls_enabled := t # rls_enabled cat\<rparr>)"
| "apply_stmt cat (CreatePolicy p) =
     (if list_ex (\<lambda>q. pol_name q = pol_name p \<and> pol_table q = pol_table p) (policies cat)
      then Inl duplicate_object
      else Inr (cat\<lparr>policies := policies cat @ [p]\<rparr>))"
| "apply_stmt cat (DropPolicyIfExists n t) =
     Inr (cat\<lparr>policies := filter (\<lambda>q. \<not> (pol_name q = n \<and> pol_table q = t)) (policies cat)\<rparr>)"

fun run_stmts :: "catalog \<Rightarrow> stmt list \<Rightarrow> sql_error + catalog" where
  "run_stmts cat [] = Inr cat"
| "run_stmts cat (st # sts) =
     (case apply_stmt cat st of Inl e \<Rightarrow> Inl e | Inr cat' \<Rightarrow> run_stmts cat' sts)"

definition mk_policy ::
  "string \<Rightarrow> table_name \<Rightarrow> command \<Rightarrow> expr option \<Rightarrow> expr option \<Rightarrow> policy" where
  "mk_policy n t c u w =
     \<lparr>pol_name = n, pol_table = t, pol_cmd = c, pol_to = authenticated,
      pol_using = u, pol_with_check = w\<rparr>"

text \<open>\<^verbatim>\<open>20250225152712_billowing_paper.sql\<close>, lines 54 to 113.\<close>

definition billowing_paper :: "stmt list" where
  "billowing_paper =
    [EnableRls profiles_table,
     EnableRls content_items_table,
     CreatePolicy (mk_policy ''Users can read their own profile'' profiles_table SELECT
       (Some IdEqUid) None),
     CreatePolicy (mk_policy ''Admin users can read all profiles'' profiles_table SELECT
       (Some ExistsAdminProfile) None),
     CreatePolicy (mk_policy ''Users can read assigned content'' content_items_table SELECT
       (Some (Or AssignedToEqUid ExistsAdminProfile)) None),
     CreatePolicy (mk_policy ''Admin users can create content'' content_items_table INSERT
       None (Some ExistsAdminProfile)),
     CreatePolicy (mk_policy ''Admin users can update content'' content_items_table UPDATE
       (Some ExistsAdminProfile) None)]"

text \<open>\<^verbatim>\<open>20250225153213_violet_dream.sql\<close>.\<close>

definition violet_dream :: "stmt list" where
  "violet_dream =
    [DropPolicyIfExists ''Users can read their own profile'' profiles_table,
     DropPolicyIfExists ''Admin users can read all profiles'' profiles_table,
     DropPolicyIfExists ''Users can read assigned content'' content_items_table,
     DropPolicyIfExists ''Admin users can create content'' content_items_table,
     DropPolicyIfExists ''Admin users can update content'' content_items_table,
     CreatePolicy (mk_policy ''Users can read own profile'' profiles_table SELECT
       (Some (Or IdEqUid SelectIsAdmin)) None),
     CreatePolicy (mk_policy ''Users can read assigned content'' content_items_table SELECT
       (Some (Or AssignedToEqUid SelectIsAdmin)) None),
     CreatePolicy (mk_policy ''Admin users can create content'' content_items_table INSERT
       None (Some SelectIsAdmin)),
     CreatePolicy (mk_policy ''Users can update assigned content'' content_items_table UPDATE
       (Some (Or AssignedToEqUid SelectIsAdmin)) None)]"

text \<open>\<^verbatim>\<open>20250225153235_tight_boat.sql\<close>, lines 28 to 64.\<close>

definition tight_boat :: "stmt list" where
  "tight_boat =
    [DropPolicyIfExists ''Users can read own profile'' profiles_table,
     DropPolicyIfExists ''Users can read assigned content'' content_items_table,
     DropPolicyIfExists ''Admin users can create content'' content_items_table,
     DropPolicyIfExists ''Users can update assigned content'' content_items_table,
     CreatePolicy (mk_policy ''Allow users to read own profile'' profiles_table SELECT
       (Some IdEqUid) None),
     CreatePolicy (mk_policy ''Allow admins to read all profiles'' profiles_table SELECT
       (Some CallIsAdmin) None),
     CreatePolicy (mk_policy ''Allow users to read assigned content'' content_items_table SELECT
       (Some (Or AssignedToEqUid CallIsAdmin)) None),
     CreatePolicy (mk_policy ''Allow admins to create content'' content_items_table INSERT
       None (Some CallIsAdmin)),
     CreatePolicy (mk_policy ''Allow content management'' content_items_table UPDATE
       (Some (Or AssignedToEqUid CallIsAdmin)) None)]"

text \<open>The migration that adds the rejection columns, lines 17 to 23.\<close>

definition rejection_notes_policy :: policy where
  "rejection_notes_policy =
     mk_policy ''Users can update rejection notes on assigned content''
       content_items_table UPDATE (Some AssignedToEqUid) (Some AssignedToEqUid)"

definition rejection_notes_migration :: "stmt list" where
  "rejection_notes_migration = [CreatePolicy rejection_notes_policy]"

definition empty_catalog :: catalog where
  "empty_catalog = \<lparr>rls_enabled = [], policies = []\<rparr>"

definition initial_catalog :: "sql_error + catalog" where
  "initial_catalog = run_stmts empty_catalog billowing_paper"

definition all_migrations :: "stmt list" where
  "all_migrations = billowing_paper @ violet_dream @ tight_boat @ rejection_notes_migration"

definition migrated :: "sql_error + catalog" where
  "migrated = run_stmts empty_catalog all_migrations"

text \<open>The catalog after all four migrations, written out.\<close>

definition final_catalog :: catalog where
  "final_catalog =
    \<lparr>rls_enabled = [content_items_table, profiles_table],
     policies =
      [mk_policy ''Allow users to read own profile'' profiles_table SELECT (Some IdEqUid) None,
       mk_policy ''Allow admins to read all profiles'' profiles_table SELECT
         (Some CallIsAdmin) None,
       mk_policy ''Allow users to read assigned content'' content_items_table SELECT
         (Some (Or AssignedToEqUid CallIsAdmin)) None,
       mk_policy ''Allow admins to create content'' content_items_table INSERT
         None (Some CallIsAdmin),
       mk_policy ''Allow content management'' content_items_table UPDATE
         (Some (Or AssignedToEqUid CallIsAdmin)) None,
       rejection_notes_policy]\<rparr>"

text \<open>The catalog of the first migration alone, written out.\<close>

definition first_catalog :: catalog where
  "first_catalog =
    \<lparr>rls_enabled = [content_items_table, profiles_table],
     policies =
      [mk_policy ''Users can read their own profile'' profiles_table SELECT (Some IdEqUid) None,
       mk_policy ''Admin users can read all profiles'' profiles_table SELECT
         (Some ExistsAdminProfile) None,
       mk_policy ''Users can read assigned content'' content_items_table SELECT
         (Some (Or AssignedToEqUid ExistsAdminProfile)) None,
       mk_policy ''Admin users can create content'' content_items_table INSERT
         None (Some ExistsAdminProfile),
       mk_policy ''Admin users can update content'' content_items_table UPDATE
         (Some ExistsAdminProfile) None]\<rparr>"

section \<open>Policy evaluation\<close>

fun row_id :: "row \<Rightarrow> uuid option" where
  "row_id (ProfileRow p) = Some (p_id p)"
| "row_id (ContentRow c) = Some (c_id c)"

text \<open>\<^verbatim>\<open>profiles\<close> has no column \<^verbatim>\<open>assigned_to\<close>.\<close>

fun row_assigned_to :: "row \<Rightarrow> sql_error + uuid option" where
  "row_assigned_to (ProfileRow p) = Inl undefined_column"
| "row_assigned_to (ContentRow c) = Inr (c_assigned_to c)"

type_synonym qual = "row \<Rightarrow> sql_error + tri"

text \<open>\<^verbatim>\<open>WHERE id = auth.uid() AND is_admin = true\<close> on a row of \<^verbatim>\<open>profiles\<close>.\<close>

definition admin_where :: "session \<Rightarrow> profile \<Rightarrow> tri" where
  "admin_where s p =
     sql_and (sql_eq (Some (p_id p)) (auth_uid s)) (sql_eq (p_is_admin p) (Some True))"

definition exists_admin :: "session \<Rightarrow> profile list \<Rightarrow> tri" where
  "exists_admin s rows = Some (list_ex (\<lambda>p. admin_where s p = Some True) rows)"

text \<open>A scalar subquery: no row gives \<^verbatim>\<open>NULL\<close>, more than one row is an error.\<close>

definition select_is_admin :: "session \<Rightarrow> profile list \<Rightarrow> sql_error + tri" where
  "select_is_admin s rows =
     (case filter (\<lambda>p. sql_eq (Some (p_id p)) (auth_uid s) = Some True) rows of
        [] \<Rightarrow> Inr None
      | [p] \<Rightarrow> Inr (p_is_admin p)
      | _ \<Rightarrow> Inl cardinality_violation)"

text \<open>The rows a qualification lets through; a row is kept when the result is true.\<close>

fun filter_rows :: "qual \<Rightarrow> ('a \<Rightarrow> row) \<Rightarrow> 'a list \<Rightarrow> sql_error + 'a list" where
  "filter_rows q mk [] = Inr []"
| "filter_rows q mk (x # xs) =
     (case q (mk x) of
        Inl e \<Rightarrow> Inl e
      | Inr t \<Rightarrow> (case filter_rows q mk xs of
                   Inl e \<Rightarrow> Inl e
                 | Inr rest \<Rightarrow> Inr (if t = Some True then x # rest else rest)))"

definition bypass_rls :: "catalog \<Rightarrow> session \<Rightarrow> table_name \<Rightarrow> bool" where
  "bypass_rls cat s t = (s_role s = table_owner \<or> t \<notin> set (rls_enabled cat))"

definition applicable :: "catalog \<Rightarrow> session \<Rightarrow> table_name \<Rightarrow> command \<Rightarrow> policy list" where
  "applicable cat s t c =
     filter (\<lambda>p. pol_table p = t \<and> pol_cmd p = c \<and> pol_to p = s_role s) (policies cat)"

text \<open>The \<^verbatim>\<open>USING\<close> expressions of the policies that apply.\<close>

definition using_exprs :: "catalog \<Rightarrow> session \<Rightarrow> table_name \<Rightarrow> command \<Rightarrow> expr list" where
  "using_exprs cat s t c = List.map_filter pol_using (applicable cat s t c)"

text \<open>
  The \<^verbatim>\<open>WITH CHECK\<close> expressions of the policies that apply; a policy that gives
  only \<^verbatim>\<open>USING\<close> uses it for both.
\<close>

definition check_exprs :: "catalog \<Rightarrow> session \<Rightarrow> table_name \<Rightarrow> command \<Rightarrow> expr list" where
  "check_exprs cat s t c =
     List.map_filter (\<lambda>p. case pol_with_check p of Some e \<Rightarrow> Some e | None \<Rightarrow> pol_using p)
       (applicable cat s t c)"

text \<open>
  The body of \<^verbatim>\<open>is_admin()\<close> (\<^verbatim>\<open>tight_boat.sql\<close>, lines 16 to 26):
  \<^verbatim>\<open>RETURN EXISTS (SELECT 1 FROM profiles WHERE id = auth.uid() AND is_admin = true)\<close>,
  declared \<^verbatim>\<open>SECURITY DEFINER\<close>.
\<close>

definition is_admin_body :: expr where
  "is_admin_body = ExistsAdminProfile"

text \<open>
  Expanding a policy expression into a qualification on rows. The fuel bounds the depth
  of the expansion: a reference to a table under row security expands that table's
  \<^verbatim>\<open>SELECT\<close> policies (one unit), a function call runs the function's body (one
  unit). \<open>None\<close> is an expansion that did not end within the fuel.
  \<^item> \<open>compile\<close> expands one expression;
  \<^item> \<open>or_policies\<close> combines the expressions of several permissive policies with
    \<^verbatim>\<open>OR\<close>; no policy at all denies;
  \<^item> \<open>scan_profiles\<close> is \<^verbatim>\<open>FROM profiles\<close>: all rows for a session exempt from
    row security, otherwise the rows the \<^verbatim>\<open>SELECT\<close> policies of
    \<^verbatim>\<open>profiles\<close> let through.
\<close>

fun compile :: "nat \<Rightarrow> catalog \<Rightarrow> db \<Rightarrow> session \<Rightarrow> expr \<Rightarrow> qual option"
  and or_policies :: "nat \<Rightarrow> catalog \<Rightarrow> db \<Rightarrow> session \<Rightarrow> expr list \<Rightarrow> qual option"
  and scan_profiles :: "nat \<Rightarrow> catalog \<Rightarrow> db \<Rightarrow> session \<Rightarrow> (sql_error + profile list) option"
where
  "compile n cat d s IdEqUid = Some (\<lambda>r. Inr (sql_eq (row_id r) (auth_uid s)))"
| "compile n cat d s AssignedToEqUid =
     Some (\<lambda>r. case row_assigned_to r of Inl e \<Rightarrow> Inl e | Inr a \<Rightarrow> Inr (sql_eq a (auth_uid s)))"
| "compile n cat d s (Or a b) =
     (case compile n cat d s a of
        None \<Rightarrow> None
      | Some qa \<Rightarrow> (case compile n cat d s b of
                     None \<Rightarrow> None
                   | Some qb \<Rightarrow> Some (\<lambda>r. or_result (qa r) (qb r))))"
| "compile n cat d s ExistsAdminProfile =
     (case scan_profiles n cat d s of
        None \<Rightarrow> None
      | Some (Inl e) \<Rightarrow> Some (\<lambda>r. Inl e)
      | Some (Inr rows) \<Rightarrow> Some (\<lambda>r. Inr (exists_admin s rows)))"
| "compile n cat d s SelectIsAdmin =
     (case scan_profiles n cat d s of
        None \<Rightarrow> None
      | Some (Inl e) \<Rightarrow> Some (\<lambda>r. Inl e)
      | Some (Inr rows) \<Rightarrow> Some (\<lambda>r. select_is_admin s rows))"
| "compile 0 cat d s CallIsAdmin = None"
| "compile (Suc n) cat d s CallIsAdmin = compile n cat d (as_definer s) is_admin_body"
| "or_policies n cat d s [] = Some (\<lambda>r. Inr (Some False))"
| "or_policies n cat d s (e # es) =
     (case compile n cat d s e of
        None \<Rightarrow> None
      | Some q \<Rightarrow> (case or_policies n cat d s es of
                    None \<Rightarrow> None
                  | Some qs \<Rightarrow> Some (\<lambda>r. or_result (q r) (qs r))))"
| "scan_profiles 0 cat d s =
     (if bypass_rls cat s profiles_table then Some (Inr (profiles d)) else None)"
| "scan_profiles (Suc n) cat d s =
     (if bypass_rls cat s profiles_table then Some (Inr (profiles d))
      else (case or_policies n cat d s (using_exprs cat s profiles_table SELECT) of
              None \<Rightarrow> None
            | Some q \<Rightarrow> Some (filter_rows q ProfileRow (profiles d))))"

text \<open>
  The qualification a command's policies put on existing rows (\<^verbatim>\<open>USING\<close>) and on
  new rows (\<^verbatim>\<open>WITH CHECK\<close>). The query's own table costs no fuel.
\<close>

definition policy_qual ::
  "nat \<Rightarrow> catalog \<Rightarrow> db \<Rightarrow> session \<Rightarrow> table_name \<Rightarrow> command \<Rightarrow> qual option" where
  "policy_qual n cat d s t c =
     (if bypass_rls cat s t then Some (\<lambda>r. Inr (Some True))
      else or_policies n cat d s (using_exprs cat s t c))"

definition policy_check ::
  "nat \<Rightarrow> catalog \<Rightarrow> db \<Rightarrow> session \<Rightarrow> table_name \<Rightarrow> command \<Rightarrow> qual option" where
  "policy_check n cat d s t c =
     (if bypass_rls cat s t then Some (\<lambda>r. Inr (Some True))
      else or_policies n cat d s (check_exprs cat s t c))"

definition row_passes :: "qual \<Rightarrow> row \<Rightarrow> sql_error + bool" where
  "row_passes q r = (case q r of Inl e \<Rightarrow> Inl e | Inr t \<Rightarrow> Inr (t = Some True))"

definition permits ::
  "nat \<Rightarrow> catalog \<Rightarrow> db \<Rightarrow> session \<Rightarrow> table_name \<Rightarrow> command \<Rightarrow> row
     \<Rightarrow> (sql_error + bool) option" where
  "permits n cat d s t c r =
     (case policy_qual n cat d s t c of None \<Rightarrow> None | Some q \<Rightarrow> Some (row_passes q r))"

definition check_permits ::
  "nat \<Rightarrow> catalog \<Rightarrow> db \<Rightarrow> session \<Rightarrow> table_name \<Rightarrow> command \<Rightarrow> row
     \<Rightarrow> (sql_error + bool) option" where
  "check_permits n cat d s t c r =
     (case policy_check n cat d s t c of None \<Rightarrow> None | Some q \<Rightarrow> Some (row_passes q r))"

text \<open>One policy taken alone, as if it were the only one of its table and command.\<close>

definition policy_alone :: "policy \<Rightarrow> catalog" where
  "policy_alone p = \<lparr>rls_enabled = [pol_table p], policies = [p]\<rparr>"

text \<open>The call \<^verbatim>\<open>is_admin()\<close> as a qualification; it reads no column of the row.\<close>

definition is_admin :: "nat \<Rightarrow> catalog \<Rightarrow> db \<Rightarrow> session \<Rightarrow> qual option" where
  "is_admin n cat d s = compile n cat d s CallIsAdmin"

text \<open>
  The principal \<open>u\<close> has a profile whose admin flag is set: the reading of
  ``is an admin'' that the policies are compared with.
\<close>

definition has_admin_flag :: "db \<Rightarrow> uuid \<Rightarrow> bool" where
  "has_admin_flag d u = list_ex (\<lambda>p. p_id p = u \<and> p_is_admin p = Some True) (profiles d)"

section \<open>Queries under row security\<close>

definition select_profiles ::
  "nat \<Rightarrow> catalog \<Rightarrow> db \<Rightarrow> session \<Rightarrow> (sql_error + profile list) option" where
  "select_profiles n cat d s =
     (case policy_qual n cat d s profiles_table SELECT of
        None \<Rightarrow> None
      | Some q \<Rightarrow> Some (filter_rows q ProfileRow (profiles d)))"

definition select_content_items ::
  "nat \<Rightarrow> catalog \<Rightarrow> db \<Rightarrow> session \<Rightarrow> (sql_error + content_item list) option" where
  "select_content_items n cat d s =
     (case policy_qual n cat d s content_items_table SELECT of
        None \<Rightarrow> None
      | Some q \<Rightarrow> Some (filter_rows q ContentRow (content_items d)))"

subsection \<open>Constraints of \<^verbatim>\<open>content_items\<close>\<close>

text \<open>
  A \<^verbatim>\<open>CHECK\<close> passes unless its condition is false, so a \<^verbatim>\<open>NULL\<close> status
  passes.
\<close>

definition content_type_check :: "string \<Rightarrow> bool" where
  "content_type_check t = (t \<in> set [''Post'', ''Story'', ''Reel'', ''TikTok''])"

definition status_check :: "string option \<Rightarrow> bool" where
  "status_check st =
     (case st of None \<Rightarrow> True | Some x \<Rightarrow> x \<in> set [''Approved'', ''Rejected'', ''Pending''])"

definition references_profile :: "db \<Rightarrow> uuid option \<Rightarrow> bool" where
  "references_profile d r =
     (case r of None \<Rightarrow> True | Some u \<Rightarrow> u \<in> set (map p_id (profiles d)))"

subsection \<open>\<^verbatim>\<open>INSERT INTO content_items\<close>\<close>

text \<open>
  The columns of a request: \<open>None\<close> is a column the request leaves out, which takes
  the column's \<^verbatim>\<open>DEFAULT\<close> (or \<^verbatim>\<open>NULL\<close> where there is none);
  \<open>Some v\<close> is a value the request supplies, \<open>Some None\<close> an explicit
  \<^verbatim>\<open>NULL\<close>.
\<close>

record content_insert =
  ins_id :: "uuid option option"
  ins_title :: "string option option"
  ins_caption :: "string option option"
  ins_content_type :: "string option option"
  ins_media_url :: "string option option"
  ins_status :: "string option option"
  ins_schedule_date :: "timestamptz option option"
  ins_created_by :: "uuid option option"
  ins_assigned_to :: "uuid option option"
  ins_created_at :: "timestamptz option option"
  ins_updated_at :: "timestamptz option option"
  ins_rejection_notes :: "string option option"
  ins_rejected_at :: "timestamptz option option"

definition column_value :: "'a option \<Rightarrow> 'a option option \<Rightarrow> 'a option" where
  "column_value dflt v = (case v of None \<Rightarrow> dflt | Some x \<Rightarrow> x)"

text \<open>
  The row to store: \<open>fresh\<close> is the value of \<^verbatim>\<open>gen_random_uuid()\<close>, \<open>now\<close>
  that of \<^verbatim>\<open>now()\<close>. \<open>None\<close> when a \<^verbatim>\<open>NOT NULL\<close> column
  (\<^verbatim>\<open>id\<close>, \<^verbatim>\<open>caption\<close>, \<^verbatim>\<open>content_type\<close>, \<^verbatim>\<open>media_url\<close>) would be
  \<^verbatim>\<open>NULL\<close>.
\<close>

definition new_content_row :: "uuid \<Rightarrow> timestamptz \<Rightarrow> content_insert \<Rightarrow> content_item option" where
  "new_content_row fresh now p =
     (case column_value (Some fresh) (ins_id p) of
        None \<Rightarrow> None
      | Some i \<Rightarrow>
     (case column_value None (ins_caption p) of
        None \<Rightarrow> None
      | Some cap \<Rightarrow>
     (case column_value None (ins_content_type p) of
        None \<Rightarrow> None
      | Some ct \<Rightarrow>
     (case column_value None (ins_media_url p) of
        None \<Rightarrow> None
      | Some mu \<Rightarrow>
         Some \<lparr>c_id = i,
               c_title = column_value None (ins_title p),
               c_caption = cap,
               c_content_type = ct,
               c_media_url = mu,
               c_status = column_value (Some ''Pending'') (ins_status p),
               c_schedule_date = column_value None (ins_schedule_date p),
               c_created_by = column_value None (ins_created_by p),
               c_assigned_to = column_value None (ins_assigned_to p),
               c_created_at = column_value (Some now) (ins_created_at p),
               c_updated_at = column_value (Some now) (ins_updated_at p),
               c_rejection_notes = column_value None (ins_rejection_notes p),
               c_rejected_at = column_value None (ins_rejected_at p)\<rparr>))))"

text \<open>
  The insert of one row by session \<open>s\<close>. A failed statement leaves the database as it
  was. The model finds a \<^verbatim>\<open>NOT NULL\<close> violation before it evaluates the policy
  (a row of the model has a value in every such column); which of several violations
  is reported is the only difference to PostgreSQL, which evaluates the policy first.
\<close>

definition insert_content_item ::
  "nat \<Rightarrow> catalog \<Rightarrow> db \<Rightarrow> session \<Rightarrow> uuid \<Rightarrow> timestamptz \<Rightarrow> content_insert
     \<Rightarrow> (sql_error + db) option" where
  "insert_content_item n cat d s fresh now p =
     (case new_content_row fresh now p of
        None \<Rightarrow> Some (Inl not_null_violation)
      | Some r \<Rightarrow>
         (case check_permits n cat d s content_items_table INSERT (ContentRow r) of
            None \<Rightarrow> None
          | Some (Inl e) \<Rightarrow> Some (Inl e)
          | Some (Inr ok) \<Rightarrow>
              Some (if \<not> ok then Inl rls_violation
                    else if \<not> (content_type_check (c_content_type r) \<and> status_check (c_status r))
                      then Inl check_violation
                    else if c_id r \<in> set (map c_id (content_items d)) then Inl unique_violation
                    else if \<not> (references_profile d (c_created_by r)
                                \<and> references_profile d (c_assigned_to r))
                      then Inl foreign_key_violation
                    else Inr (d\<lparr>content_items := content_items d @ [r]\<rparr>))))"

subsection \<open>\<^verbatim>\<open>UPDATE content_items ... WHERE id = i\<close>\<close>

text \<open>
  The columns an update sets: those the application writes, and \<^verbatim>\<open>assigned_to\<close>,
  the column the policies read. \<open>None\<close> leaves a column as it is.
\<close>

record content_update =
  upd_status :: "string option option"
  upd_rejection_notes :: "string option option"
  upd_rejected_at :: "timestamptz option option"
  upd_assigned_to :: "uuid option option"

definition apply_update :: "content_update \<Rightarrow> content_item \<Rightarrow> content_item" where
  "apply_update p c =
     c\<lparr>c_status := column_value (c_status c) (upd_status p),
       c_rejection_notes := column_value (c_rejection_notes c) (upd_rejection_notes p),
       c_rejected_at := column_value (c_rejected_at c) (upd_rejected_at p),
       c_assigned_to := column_value (c_assigned_to c) (upd_assigned_to p)\<rparr>"

definition and_result :: "sql_error + bool \<Rightarrow> sql_error + bool \<Rightarrow> sql_error + bool" where
  "and_result a b = (case a of Inl e \<Rightarrow> Inl e
                     | Inr x \<Rightarrow> (case b of Inl e \<Rightarrow> Inl e | Inr y \<Rightarrow> Inr (x \<and> y)))"

text \<open>
  The constraints on an updated row: both \<^verbatim>\<open>CHECK\<close>s, and the foreign key of
  \<^verbatim>\<open>assigned_to\<close> when the update sets that column.
\<close>

definition update_violation :: "db \<Rightarrow> content_update \<Rightarrow> content_item \<Rightarrow> sql_error option" where
  "update_violation d p c' =
     (if \<not> (content_type_check (c_content_type c') \<and> status_check (c_status c'))
        then Some check_violation
      else if upd_assigned_to p \<noteq> None \<and> \<not> references_profile d (c_assigned_to c')
        then Some foreign_key_violation
      else None)"

text \<open>
  \<open>target\<close> decides whether the session may update an existing row, \<open>accept\<close>
  whether it may store the row as updated. A row with the wanted \<^verbatim>\<open>id\<close> that the
  session may not update is passed over in silence; an updated row that is not accepted
  fails the statement.
\<close>

definition update_row ::
  "(content_item \<Rightarrow> sql_error + bool) \<Rightarrow> (content_item \<Rightarrow> sql_error + bool) \<Rightarrow> db
     \<Rightarrow> content_update \<Rightarrow> uuid \<Rightarrow> content_item \<Rightarrow> sql_error + content_item" where
  "update_row target accept d p i c =
     (if c_id c \<noteq> i then Inr c
      else (case target c of
              Inl e \<Rightarrow> Inl e
            | Inr may \<Rightarrow>
                if \<not> may then Inr c
                else (case accept (apply_update p c) of
                        Inl e \<Rightarrow> Inl e
                      | Inr ok \<Rightarrow>
                          if \<not> ok then Inl rls_violation
                          else (case update_violation d p (apply_update p c) of
                                  Some e \<Rightarrow> Inl e
                                | None \<Rightarrow> Inr (apply_update p c)))))"

fun update_rows ::
  "(content_item \<Rightarrow> sql_error + bool) \<Rightarrow> (content_item \<Rightarrow> sql_error + bool) \<Rightarrow> db
     \<Rightarrow> content_update \<Rightarrow> uuid \<Rightarrow> content_item list \<Rightarrow> sql_error + content_item list" where
  "update_rows target accept d p i [] = Inr []"
| "update_rows target accept d p i (c # cs) =
     (case update_row target accept d p i c of
        Inl e \<Rightarrow> Inl e
      | Inr c' \<Rightarrow> (case update_rows target accept d p i cs of
                    Inl e \<Rightarrow> Inl e
                  | Inr rest \<Rightarrow> Inr (c' # rest)))"

text \<open>
  The statement reads \<^verbatim>\<open>id\<close> in its \<^verbatim>\<open>WHERE\<close> clause, so the
  \<^verbatim>\<open>SELECT\<close> policies apply with the \<^verbatim>\<open>UPDATE\<close> policies, to the existing
  row and to the updated one.
\<close>

definition update_content_items ::
  "nat \<Rightarrow> catalog \<Rightarrow> db \<Rightarrow> session \<Rightarrow> content_update \<Rightarrow> uuid \<Rightarrow> (sql_error + db) option" where
  "update_content_items n cat d s p i =
     (case policy_qual n cat d s content_items_table SELECT of
        None \<Rightarrow> None
      | Some qs \<Rightarrow>
     (case policy_qual n cat d s content_items_table UPDATE of
        None \<Rightarrow> None
      | Some qu \<Rightarrow>
     (case policy_check n cat d s content_items_table UPDATE of
        None \<Rightarrow> None
      | Some qc \<Rightarrow>
         Some (case update_rows
                      (\<lambda>c. and_result (row_passes qs (ContentRow c)) (row_passes qu (ContentRow c)))
                      (\<lambda>c. and_result (row_passes qc (ContentRow c)) (row_passes qs (ContentRow c)))
                      d p i (content_items d) of
                 Inl e \<Rightarrow> Inl e
               | Inr rows \<Rightarrow> Inr (d\<lparr>content_items := rows\<rparr>)))))"

section \<open>The hook on new users\<close>

definition bootstrap_email :: string where
  "bootstrap_email = ''geral@stagelink.pt''"

text \<open>
  \<^verbatim>\<open>handle_new_user\<close> (\<^verbatim>\<open>billowing_paper.sql\<close>, lines 116 to 128) is
  \<^verbatim>\<open>SECURITY DEFINER\<close>: its insert into \<^verbatim>\<open>profiles\<close> is the owner's and no
  policy applies. The constraints are those of the table: \<^verbatim>\<open>email\<close> is
  \<^verbatim>\<open>NOT NULL\<close> and \<^verbatim>\<open>UNIQUE\<close>, \<^verbatim>\<open>id\<close> is the primary key and
  references \<^verbatim>\<open>auth.users\<close>. The flag is the value of
  \<^verbatim>\<open>new.email = 'geral@stagelink.pt'\<close>.
\<close>

definition handle_new_user :: "db \<Rightarrow> timestamptz \<Rightarrow> auth_user \<Rightarrow> sql_error + db" where
  "handle_new_user d now new =
     (case u_email new of
        None \<Rightarrow> Inl not_null_violation
      | Some e \<Rightarrow>
          if u_id new \<in> set (map p_id (profiles d)) \<or> e \<in> set (map p_email (profiles d))
            then Inl unique_violation
          else if u_id new \<notin> set (map u_id (auth_users d)) then Inl foreign_key_violation
          else Inr (d\<lparr>profiles := profiles d @
                 [\<lparr>p_id = u_id new,
                   p_email = e,
                   p_full_name = u_meta_full_name new,
                   p_is_admin = sql_eq (u_email new) (Some bootstrap_email),
                   p_created_at = Some now,
                   p_updated_at = Some now\<rparr>]\<rparr>))"

text \<open>
  The trigger \<^verbatim>\<open>on_auth_user_created\<close> runs the hook after the insert of each row
  into \<^verbatim>\<open>auth.users\<close>, in the same transaction: when the hook fails, the user is
  not created either.
\<close>

definition on_auth_user_created :: "db \<Rightarrow> timestamptz \<Rightarrow> auth_user \<Rightarrow> sql_error + db" where
  "on_auth_user_created d now new =
     (if u_id new \<in> set (map u_id (auth_users d)) then Inl unique_violation
      else handle_new_user (d\<lparr>auth_users := auth_users d @ [new]\<rparr>) now new)"

section \<open>The dashboard (\<^verbatim>\<open>src/pages/Dashboard.tsx\<close>)\<close>

subsection \<open>Who the pages treat as an admin\<close>

text \<open>
  \<^verbatim>\<open>const isAdmin = profile?.email === 'geral@stagelink.pt'\<close> (line 45); the
  profile of the signed-in user is a row of \<^verbatim>\<open>profiles\<close>, or absent.
\<close>

definition isAdmin :: "profile option \<Rightarrow> bool" where
  "isAdmin prof = (case prof of None \<Rightarrow> False | Some p \<Rightarrow> p_email p = ''geral@stagelink.pt'')"

text \<open>
  \<^verbatim>\<open>AdminDashboard\<close>: \<^verbatim>\<open>if (profile?.email !== 'geral@stagelink.pt')\<close> the page
  is the ``Access Denied'' screen, otherwise the admin page.
\<close>

datatype admin_page = AccessDenied | AdminPage

definition AdminDashboard :: "profile option \<Rightarrow> admin_page" where
  "AdminDashboard prof =
     (if (case prof of None \<Rightarrow> True | Some p \<Rightarrow> p_email p \<noteq> ''geral@stagelink.pt'')
      then AccessDenied else AdminPage)"

subsection \<open>Dates\<close>

text \<open>
  A JavaScript \<^verbatim>\<open>Date\<close> is its time value in milliseconds, or \<open>None\<close> for an
  invalid date. \<^verbatim>\<open>startOfDay\<close> and \<^verbatim>\<open>isBefore\<close> are those of
  \<^verbatim>\<open>date-fns\<close>. \<^verbatim>\<open>startOfDay\<close> sets the local time of day to 00:00:00.000
  (\<^verbatim>\<open>setHours(0, 0, 0, 0)\<close>): which instant that is depends on the time zone of the
  browser and on the offset in force on that date, so the definitions take it as a
  parameter \<open>midnight\<close>, the function from a time value to the time value of the start
  of its local day; an invalid date stays invalid. \<^verbatim>\<open>isBefore\<close> compares time
  values, and an invalid date is before nothing and has nothing before it.
  \<^verbatim>\<open>parseISO\<close> is a parameter \<open>parse\<close> of the definitions that call it.
\<close>

type_synonym jsdate = "int option"

definition startOfDay :: "(int \<Rightarrow> int) \<Rightarrow> jsdate \<Rightarrow> jsdate" where
  "startOfDay midnight dt = (case dt of None \<Rightarrow> None | Some t \<Rightarrow> Some (midnight t))"

definition isBefore :: "jsdate \<Rightarrow> jsdate \<Rightarrow> bool" where
  "isBefore a b = (case a of None \<Rightarrow> False
                   | Some x \<Rightarrow> (case b of None \<Rightarrow> False | Some y \<Rightarrow> x < y))"

subsection \<open>Current and archived content\<close>

record assigned_profile =
  ap_email :: string
  ap_full_name :: string

text \<open>The type \<^verbatim>\<open>ContentItem\<close> (lines 10 to 24); the fields carry the prefix \<open>item_\<close>.\<close>

record ContentItem =
  item_id :: string
  item_title :: string
  item_caption :: string
  item_content_type :: string
  item_media_url :: string
  item_status :: string
  item_schedule_date :: string
  item_rejection_notes :: "string option"
  item_rejected_at :: "string option"
  item_assigned_to_profile :: "assigned_profile option"

text \<open>
  \<^verbatim>\<open>isBefore(startOfDay(parseISO(item.schedule_date)), today)\<close> with
  \<^verbatim>\<open>today = startOfDay(new Date())\<close> (lines 46, 97, 98, 112, 116, 123).
\<close>

definition today :: "(int \<Rightarrow> int) \<Rightarrow> int \<Rightarrow> jsdate" where
  "today midnight now = startOfDay midnight (Some now)"

definition is_archived :: "(string \<Rightarrow> jsdate) \<Rightarrow> (int \<Rightarrow> int) \<Rightarrow> int \<Rightarrow> ContentItem \<Rightarrow> bool" where
  "is_archived parse midnight now item =
     isBefore (startOfDay midnight (parse (item_schedule_date item))) (today midnight now)"

record content_partition =
  currentContent :: "ContentItem list"
  archivedContent :: "ContentItem list"

text \<open>The \<^verbatim>\<open>reduce\<close> of lines 96 to 104: its callback, then the fold from two empty arrays.\<close>

definition partition_step ::
  "(string \<Rightarrow> jsdate) \<Rightarrow> (int \<Rightarrow> int) \<Rightarrow> int \<Rightarrow> content_partition \<Rightarrow> ContentItem \<Rightarrow> content_partition" where
  "partition_step parse midnight now acc item =
     (if isBefore (startOfDay midnight (parse (item_schedule_date item))) (today midnight now)
      then acc\<lparr>archivedContent := archivedContent acc @ [item]\<rparr>
      else acc\<lparr>currentContent := currentContent acc @ [item]\<rparr>)"

definition partition_content ::
  "(string \<Rightarrow> jsdate) \<Rightarrow> (int \<Rightarrow> int) \<Rightarrow> int \<Rightarrow> ContentItem list \<Rightarrow> content_partition" where
  "partition_content parse midnight now contentItems =
     foldl (partition_step parse midnight now) \<lparr>currentContent = [], archivedContent = []\<rparr> contentItems"

datatype ViewMode = ListView | TypeView | CalendarView | ArchiveView

text \<open>
  \<^verbatim>\<open>filteredItems\<close> (lines 106 to 128). \<^verbatim>\<open>item.assigned_to_profile?.email\<close> of
  an item without a profile is \<^verbatim>\<open>undefined\<close>, which equals no selected client.
\<close>

definition matchesClient :: "string \<Rightarrow> ContentItem \<Rightarrow> bool" where
  "matchesClient selectedClient item =
     (selectedClient = ''all'' \<or>
      (case item_assigned_to_profile item of None \<Rightarrow> False
       | Some ap \<Rightarrow> ap_email ap = selectedClient))"

definition filteredItems ::
  "(string \<Rightarrow> jsdate) \<Rightarrow> (int \<Rightarrow> int) \<Rightarrow> int \<Rightarrow> ViewMode \<Rightarrow> string \<Rightarrow> string \<Rightarrow> string
     \<Rightarrow> ContentItem list \<Rightarrow> ContentItem list" where
  "filteredItems parse midnight now viewMode selectedType selectedStatus selectedClient contentItems =
     filter (\<lambda>item.
       if viewMode = CalendarView then True
       else if viewMode = ArchiveView
         then isBefore (startOfDay midnight (parse (item_schedule_date item))) (today midnight now)
       else if viewMode = ListView
         then \<not> isBefore (startOfDay midnight (parse (item_schedule_date item))) (today midnight now)
              \<and> (item_status item = ''Pending'' \<or> item_status item = ''Rejected'')
              \<and> (selectedType = ''all'' \<or> item_content_type item = selectedType)
              \<and> matchesClient selectedClient item
       else \<not> isBefore (startOfDay midnight (parse (item_schedule_date item))) (today midnight now)
            \<and> (selectedType = ''all'' \<or> item_content_type item = selectedType)
            \<and> (selectedStatus = ''all'' \<or> item_status item = selectedStatus)
            \<and> matchesClient selectedClient item)
       contentItems"

subsection \<open>The handlers\<close>

text \<open>
  The state of the component that the handlers read and write. An item's
  \<^verbatim>\<open>id\<close> is a \<^verbatim>\<open>uuid\<close> of the database, so \<^verbatim>\<open>rejectingItemId\<close> is
  \<open>None\<close> (\<^verbatim>\<open>null\<close>) or an id, and the form's \<^verbatim>\<open>assigned_to\<close> is \<open>None\<close>
  (the empty choice) or the id of the chosen profile.
\<close>

record form_data =
  f_title :: string
  f_caption :: string
  f_content_type :: string
  f_media_url :: string
  f_schedule_date :: string
  f_assigned_to :: "uuid option"

record dashboard_state =
  showForm :: bool
  formData :: form_data
  rejectionNotes :: string
  rejectingItemId :: "uuid option"

text \<open>
  \<^verbatim>\<open>String.prototype.trim\<close> on a string of code units below 256: the white space and
  line terminators in that range are tab, line feed, vertical tab, form feed, carriage
  return, space and no-break space.
\<close>

definition is_white_space :: "char \<Rightarrow> bool" where
  "is_white_space c = (of_char c \<in> set [9, 10, 11, 12, 13, 32, 160 :: nat])"

definition trim :: "string \<Rightarrow> string" where
  "trim x = rev (dropWhile is_white_space (rev (dropWhile is_white_space x)))"

text \<open>
  \<^verbatim>\<open>handleSubmit\<close> (lines 130 to 155). The request carries the form's fields,
  \<^verbatim>\<open>created_by: profile?.id\<close> (left out when there is no profile) and
  \<^verbatim>\<open>status: 'Pending'\<close>.
\<close>

definition submit_request :: "profile option \<Rightarrow> form_data \<Rightarrow> timestamptz option \<Rightarrow> content_insert" where
  "submit_request prof f sched =
     \<lparr>ins_id = None,
      ins_title = Some (Some (f_title f)),
      ins_caption = Some (Some (f_caption f)),
      ins_content_type = Some (Some (f_content_type f)),
      ins_media_url = Some (Some (f_media_url f)),
      ins_status = Some (Some ''Pending''),
      ins_schedule_date = Some sched,
      ins_created_by = (case prof of None \<Rightarrow> None | Some p \<Rightarrow> Some (Some (p_id p))),
      ins_assigned_to = Some (f_assigned_to f),
      ins_created_at = None,
      ins_updated_at = None,
      ins_rejection_notes = None,
      ins_rejected_at = None\<rparr>"

definition empty_form :: "string \<Rightarrow> form_data" where
  "empty_form today_text =
     \<lparr>f_title = [], f_caption = [], f_content_type = ''Post'', f_media_url = [],
      f_schedule_date = today_text, f_assigned_to = None\<rparr>"

text \<open>
  The result is the alert shown (if any), the new state and the new database.
  \<open>to_timestamptz\<close> is the database's reading of the form's date text (\<open>None\<close>: not
  a date, which fails the request); \<open>today_text\<close> is
  \<^verbatim>\<open>format(new Date(), 'yyyy-MM-dd')\<close>.
\<close>

definition handleSubmit ::
  "nat \<Rightarrow> catalog \<Rightarrow> session \<Rightarrow> profile option \<Rightarrow> (string \<Rightarrow> timestamptz option) \<Rightarrow> uuid
     \<Rightarrow> timestamptz \<Rightarrow> string \<Rightarrow> dashboard_state \<Rightarrow> db
     \<Rightarrow> (string option \<times> dashboard_state \<times> db) option" where
  "handleSubmit n cat s prof to_timestamptz fresh now today_text st d =
     (if f_assigned_to (formData st) = None
      then Some (Some ''Please select a user to assign the content to'', st, d)
      else (case to_timestamptz (f_schedule_date (formData st)) of
              None \<Rightarrow> Some (None, st, d)
            | Some t \<Rightarrow>
                (case insert_content_item n cat d s fresh now
                        (submit_request prof (formData st) (Some t)) of
                   None \<Rightarrow> None
                 | Some (Inl e) \<Rightarrow> Some (None, st, d)
                 | Some (Inr d') \<Rightarrow>
                     Some (None, st\<lparr>showForm := False, formData := empty_form today_text\<rparr>, d'))))"

text \<open>
  \<^verbatim>\<open>handleStatusUpdate\<close> (lines 157 to 172): rejecting opens the notes dialog,
  approving updates the status.
\<close>

definition status_update :: "string \<Rightarrow> content_update" where
  "status_update status =
     \<lparr>upd_status = Some (Some status), upd_rejection_notes = None, upd_rejected_at = None,
      upd_assigned_to = None\<rparr>"

definition handleStatusUpdate ::
  "nat \<Rightarrow> catalog \<Rightarrow> session \<Rightarrow> uuid \<Rightarrow> string \<Rightarrow> dashboard_state \<Rightarrow> db
     \<Rightarrow> (dashboard_state \<times> db) option" where
  "handleStatusUpdate n cat s i status st d =
     (if status = ''Rejected''
      then Some (st\<lparr>rejectingItemId := Some i, rejectionNotes := []\<rparr>, d)
      else (case update_content_items n cat d s (status_update status) i of
              None \<Rightarrow> None
            | Some (Inl e) \<Rightarrow> Some (st, d)
            | Some (Inr d') \<Rightarrow> Some (st, d')))"

text \<open>
  \<^verbatim>\<open>handleReject\<close> (lines 174 to 191): one \<^verbatim>\<open>update\<close> of the three columns,
  with \<open>now\<close> the value of \<^verbatim>\<open>new Date()\<close>.
\<close>

definition reject_update :: "string \<Rightarrow> timestamptz \<Rightarrow> content_update" where
  "reject_update notes now =
     \<lparr>upd_status = Some (Some ''Rejected''), upd_rejection_notes = Some (Some notes),
      upd_rejected_at = Some (Some now), upd_assigned_to = None\<rparr>"

definition handleReject ::
  "nat \<Rightarrow> catalog \<Rightarrow> session \<Rightarrow> timestamptz \<Rightarrow> dashboard_state \<Rightarrow> db
     \<Rightarrow> (dashboard_state \<times> db) option" where
  "handleReject n cat s now st d =
     (case rejectingItemId st of
        None \<Rightarrow> Some (st, d)
      | Some i \<Rightarrow>
          if trim (rejectionNotes st) = [] then Some (st, d)
          else (case update_content_items n cat d s (reject_update (rejectionNotes st) now) i of
                  None \<Rightarrow> None
                | Some (Inl e) \<Rightarrow> Some (st, d)
                | Some (Inr d') \<Rightarrow>
                    Some (st\<lparr>rejectingItemId := None, rejectionNotes := []\<rparr>, d')))"

section \<open>Example data\<close>

text \<open>
  A small database for the concrete instances below: the bootstrap admin, two clients,
  and one pending item assigned to the first client.
\<close>

definition admin_profile :: profile where
  "admin_profile =
     \<lparr>p_id = 1, p_email = ''geral@stagelink.pt'', p_full_name = None,
      p_is_admin = Some True, p_created_at = Some 0, p_updated_at = Some 0\<rparr>"

definition client_profile :: profile where
  "client_profile =
     \<lparr>p_id = 2, p_email = ''client@example.com'', p_full_name = Some ''Client'',
      p_is_admin = Some False, p_created_at = Some 0, p_updated_at = Some 0\<rparr>"

definition other_profile :: profile where
  "other_profile =
     \<lparr>p_id = 3, p_email = ''other@example.com'', p_full_name = None,
      p_is_admin = Some False, p_created_at = Some 0, p_updated_at = Some 0\<rparr>"

definition example_item :: content_item where
  "example_item =
     \<lparr>c_id = 10, c_title = None, c_caption = ''Launch'', c_content_type = ''Post'',
      c_media_url = ''https://drive.example/1'', c_status = Some ''Pending'',
      c_schedule_date = Some 86400000, c_created_by = Some 1, c_assigned_to = Some 2,
      c_created_at = Some 0, c_updated_at = Some 0, c_rejection_notes = None,
      c_rejected_at = None\<rparr>"

definition example_db :: db where
  "example_db =
     \<lparr>auth_users =
        [\<lparr>u_id = 1, u_email = Some ''geral@stagelink.pt'', u_meta_full_name = None\<rparr>,
         \<lparr>u_id = 2, u_email = Some ''client@example.com'', u_meta_full_name = Some ''Client''\<rparr>,
         \<lparr>u_id = 3, u_email = Some ''other@example.com'', u_meta_full_name = None\<rparr>],
      profiles = [admin_profile, client_profile, other_profile],
      content_items = [example_item]\<rparr>"

text \<open>A request sent to the database directly, with a status of the caller's choice.\<close>

definition approved_request :: content_insert where
  "approved_request =
     \<lparr>ins_id = None,
      ins_title = None,
      ins_caption = Some (Some ''Sale''),
      ins_content_type = Some (Some ''Reel''),
      ins_media_url = Some (Some ''https://drive.example/2''),
      ins_status = Some (Some ''Approved''),
      ins_schedule_date = None,
      ins_created_by = Some (Some 1),
      ins_assigned_to = Some (Some 2),
      ins_created_at = None,
      ins_updated_at = None,
      ins_rejection_notes = None,
      ins_rejected_at = None\<rparr>"

text \<open>
  Four items as the dashboard holds them, with a reading of their dates: one scheduled
  at 00:00 UTC of day 1, one at 23:30 UTC of day 1, one at noon UTC of day 2, one whose
  date does not parse.
\<close>

definition example_parse :: "string \<Rightarrow> jsdate" where
  "example_parse x =
     (if x = ''1970-01-02T00:00:00+00:00'' then Some 86400000
      else if x = ''1970-01-02T23:30:00+00:00'' then Some 171000000
      else if x = ''1970-01-03T12:00:00+00:00'' then Some 216000000
      else None)"

text \<open>
  A time zone with a daylight-saving change: local time is UTC before the instant
  176400000 (01:00 UTC of day 2) and one hour ahead of UTC from then on. The local days
  before the change start at 00:00 UTC, the day of the change too (its midnight came
  before the change), the later ones at 23:00 UTC of the day before.
\<close>

definition example_midnight :: "int \<Rightarrow> int" where
  "example_midnight t =
     (if t < 176400000 then t - t mod 86400000
      else if 176400000 \<le> (t + 3600000) div 86400000 * 86400000 - 3600000
        then (t + 3600000) div 86400000 * 86400000 - 3600000
      else (t + 3600000) div 86400000 * 86400000)"

definition yesterday_item :: ContentItem where
  "yesterday_item =
     \<lparr>item_id = ''a'', item_title = ''Old'', item_caption = ''Old post'',
      item_content_type = ''Post'', item_media_url = ''https://drive.example/a'',
      item_status = ''Approved'', item_schedule_date = ''1970-01-02T00:00:00+00:00'',
      item_rejection_notes = None, item_rejected_at = None, item_assigned_to_profile = None\<rparr>"

definition last_night_item :: ContentItem where
  "last_night_item =
     \<lparr>item_id = ''d'', item_title = ''Late'', item_caption = ''Late post'',
      item_content_type = ''TikTok'', item_media_url = ''https://drive.example/d'',
      item_status = ''Pending'', item_schedule_date = ''1970-01-02T23:30:00+00:00'',
      item_rejection_notes = None, item_rejected_at = None, item_assigned_to_profile = None\<rparr>"

definition today_item :: ContentItem where
  "today_item =
     \<lparr>item_id = ''b'', item_title = ''New'', item_caption = ''New post'',
      item_content_type = ''Story'', item_media_url = ''https://drive.example/b'',
      item_status = ''Pending'', item_schedule_date = ''1970-01-03T12:00:00+00:00'',
      item_rejection_notes = None, item_rejected_at = None, item_assigned_to_profile = None\<rparr>"

definition undated_item :: ContentItem where
  "undated_item =
     \<lparr>item_id = ''c'', item_title = ''Draft'', item_caption = ''No date'',
      item_content_type = ''Reel'', item_media_url = ''https://drive.example/c'',
      item_status = ''Pending'', item_schedule_date = ''soon'',
      item_rejection_notes = None, item_rejected_at = None, item_assigned_to_profile = None\<rparr>"

text \<open>The dashboard with the notes dialog open on the example item.\<close>

definition example_form :: form_data where
  "example_form =
     \<lparr>f_title = ''Sale'', f_caption = ''Summer sale'', f_content_type = ''Reel'',
      f_media_url = ''https://drive.example/2'', f_schedule_date = ''1970-01-03'',
      f_assigned_to = Some 2\<rparr>"

definition example_state :: dashboard_state where
  "example_state =
     \<lparr>showForm = True, formData = example_form, rejectionNotes = ''Wrong logo'',
      rejectingItemId = Some 10\<rparr>"

definition example_to_timestamptz :: "string \<Rightarrow> timestamptz option" where
  "example_to_timestamptz x = (if x = ''1970-01-03'' then Some 172800000 else None)"

section \<open>The catalog after the migrations\<close>

lemma initial_catalog_eq: "initial_catalog = Inr first_catalog"
  by (simp add: initial_catalog_def first_catalog_def billowing_paper_def empty_catalog_def mk_policy_def)

lemma migrated_eq: "migrated = Inr final_catalog"
  by (simp add: migrated_def all_migrations_def final_catalog_def billowing_paper_def violet_dream_def tight_boat_def rejection_notes_migration_def rejection_notes_policy_def empty_catalog_def mk_policy_def)

text \<open>
  The migration that adds the rejection columns needs only the tables of the first
  migration, and no other migration drops its policy: run right after the first
  migration instead of last, it leaves the same policies on the same tables.
\<close>

lemma rejection_notes_migration_order:
  "\<exists>cat. run_stmts empty_catalog
            (billowing_paper @ rejection_notes_migration @ violet_dream @ tight_boat) = Inr cat
         \<and> set (policies cat) = set (policies final_catalog)
         \<and> rls_enabled cat = rls_enabled final_catalog"
  by (simp add: final_catalog_def billowing_paper_def violet_dream_def tight_boat_def
      rejection_notes_migration_def rejection_notes_policy_def empty_catalog_def mk_policy_def)
    auto

lemmas catalog_simps = using_exprs_def check_exprs_def applicable_def final_catalog_def mk_policy_def
  rejection_notes_policy_def authenticated_as_def List.map_filter_simps bypass_rls_def

lemma final_profiles_select:
  "using_exprs final_catalog (authenticated_as u) profiles_table SELECT = [IdEqUid, CallIsAdmin]"
  by (simp add: catalog_simps)

lemma final_content_select:
  "using_exprs final_catalog (authenticated_as u) content_items_table SELECT = [Or AssignedToEqUid CallIsAdmin]"
  by (simp add: catalog_simps)

lemma final_content_insert:
  "check_exprs final_catalog (authenticated_as u) content_items_table INSERT = [CallIsAdmin]"
  by (simp add: catalog_simps)

lemma final_content_update_using:
  "using_exprs final_catalog (authenticated_as u) content_items_table UPDATE = [Or AssignedToEqUid CallIsAdmin, AssignedToEqUid]"
  by (simp add: catalog_simps)

lemma final_content_update_check:
  "check_exprs final_catalog (authenticated_as u) content_items_table UPDATE = [Or AssignedToEqUid CallIsAdmin, AssignedToEqUid]"
  by (simp add: catalog_simps)

lemma final_no_bypass: "\<not> bypass_rls final_catalog (authenticated_as u) t"
  by (cases t) (simp_all add: catalog_simps)

lemma auth_uid_authenticated: "auth_uid (authenticated_as u) = Some u"
  by (simp add: authenticated_as_def)

lemma exists_admin_flag: "exists_admin (authenticated_as u) rows = Some (list_ex (\<lambda>p. p_id p = u \<and> p_is_admin p = Some True) rows)"
  by (induction rows) (auto simp add: exists_admin_def admin_where_def authenticated_as_def sql_and_def sql_eq_def split: option.splits)

lemma call_is_admin: "compile (Suc n) cat d s CallIsAdmin = Some (\<lambda>r. Inr (exists_admin s (profiles d)))"
  by (cases n) (simp_all add: is_admin_body_def as_definer_def bypass_rls_def exists_admin_def admin_where_def)

lemma call_is_admin_auth: "compile (Suc n) cat d (authenticated_as u) CallIsAdmin = Some (\<lambda>r. Inr (Some (has_admin_flag d u)))"
  using call_is_admin [of n cat d "authenticated_as u"]
  by (simp add: exists_admin_flag has_admin_flag_def del: compile.simps)

lemmas qual_simps = permits_def check_permits_def policy_qual_def policy_check_def final_no_bypass
  call_is_admin_auth row_passes_def or_result_def sql_or_def sql_eq_def auth_uid_authenticated

lemma permits_profile:
  "permits (Suc n) final_catalog d (authenticated_as u) profiles_table SELECT (ProfileRow q)
     = Some (Inr (p_id q = u \<or> has_admin_flag d u))"
  by (auto simp add: qual_simps final_profiles_select simp del: compile.simps(7))

lemma permits_content:
  "permits (Suc n) final_catalog d (authenticated_as u) content_items_table SELECT (ContentRow c)
     = Some (Inr (c_assigned_to c = Some u \<or> has_admin_flag d u))"
  by (auto simp add: qual_simps final_content_select split: option.splits simp del: compile.simps(7))

lemma permits_update:
  "permits (Suc n) final_catalog d (authenticated_as u) content_items_table UPDATE (ContentRow c)
     = Some (Inr (c_assigned_to c = Some u \<or> has_admin_flag d u))"
  by (auto simp add: qual_simps final_content_update_using split: option.splits simp del: compile.simps(7))

lemma check_permits_update:
  "check_permits (Suc n) final_catalog d (authenticated_as u) content_items_table UPDATE (ContentRow c)
     = Some (Inr (c_assigned_to c = Some u \<or> has_admin_flag d u))"
  by (auto simp add: qual_simps final_content_update_check split: option.splits simp del: compile.simps(7))

lemma check_permits_insert:
  "check_permits (Suc n) final_catalog d (authenticated_as u) content_items_table INSERT (ContentRow c)
     = Some (Inr (has_admin_flag d u))"
  by (auto simp add: qual_simps final_content_insert split: option.splits simp del: compile.simps(7))

section \<open>Reading profiles\<close>

text \<open>
  Claim C7. Under the final policies an authenticated principal \<open>u\<close> may read a
  profile row \<open>q\<close> exactly when \<open>q\<close> is its own row or \<open>u\<close> has the admin flag:
  its own row always, and every profile row if and only if it has the admin flag.
\<close>

theorem profile_read_rule:
  "permits (Suc n) final_catalog d (authenticated_as u) profiles_table SELECT (ProfileRow q)
     = Some (Inr (p_id q = u \<or> has_admin_flag d u))
   \<and> permits (Suc n) final_catalog d (authenticated_as u) profiles_table SELECT
         (ProfileRow (q\<lparr>p_id := u\<rparr>)) = Some (Inr True)
   \<and> ((\<forall>q'. permits (Suc n) final_catalog d (authenticated_as u) profiles_table SELECT
               (ProfileRow q') = Some (Inr True)) = has_admin_flag d u)"
proof -
  have all: "\<And>q'. permits (Suc n) final_catalog d (authenticated_as u) profiles_table SELECT
      (ProfileRow q') = Some (Inr (p_id q' = u \<or> has_admin_flag d u))"
    by (rule permits_profile)
  have "(\<forall>q'::profile. p_id q' = u \<or> has_admin_flag d u) = has_admin_flag d u"
  proof
    assume h: "\<forall>q'::profile. p_id q' = u \<or> has_admin_flag d u"
    have "p_id (q\<lparr>p_id := Suc u\<rparr>) \<noteq> u" by simp
    with h show "has_admin_flag d u" by blast
  qed simp
  then show ?thesis by (simp add: all)
qed

theorem profile_read_rule_witness:
  "permits (Suc 0) final_catalog example_db (authenticated_as 2) profiles_table SELECT
     (ProfileRow client_profile) = Some (Inr True)
   \<and> permits (Suc 0) final_catalog example_db (authenticated_as 2) profiles_table SELECT
       (ProfileRow admin_profile) = Some (Inr False)
   \<and> permits (Suc 0) final_catalog example_db (authenticated_as 1) profiles_table SELECT
       (ProfileRow client_profile) = Some (Inr True)"
  using profile_read_rule [of 0 example_db 2 client_profile]
    profile_read_rule [of 0 example_db 2 admin_profile]
    profile_read_rule [of 0 example_db 1 client_profile]
  by (simp add: has_admin_flag_def example_db_def admin_profile_def client_profile_def
      other_profile_def)

section \<open>Reading, inserting and updating content items\<close>

lemma filter_rows_passes:
  assumes "\<And>x. row_passes q (mk x) = Inr (P x)"
  shows "filter_rows q mk xs = Inr (filter P xs)"
proof (induction xs)
  case Nil
  show ?case by simp
next
  case (Cons x xs)
  from assms [of x] have "\<exists>t. q (mk x) = Inr t \<and> (t = Some True) = P x"
    by (cases "q (mk x)") (simp_all add: row_passes_def)
  with Cons show ?case by auto
qed

lemma permits_qual:
  "permits n cat d s t c r = Some v \<longleftrightarrow>
     (\<exists>q. policy_qual n cat d s t c = Some q \<and> row_passes q r = v)"
  by (auto simp add: permits_def split: option.splits)

lemma content_select_qual:
  "\<exists>q. policy_qual (Suc n) final_catalog d (authenticated_as u) content_items_table SELECT = Some q
     \<and> (\<forall>c. row_passes q (ContentRow c) = Inr (c_assigned_to c = Some u \<or> has_admin_flag d u))"
proof -
  obtain q where q: "policy_qual (Suc n) final_catalog d (authenticated_as u)
      content_items_table SELECT = Some q"
    using permits_content [of n d u undefined] by (auto simp add: permits_qual)
  have "row_passes q (ContentRow c) = Inr (c_assigned_to c = Some u \<or> has_admin_flag d u)" for c
    using permits_content [of n d u c] q by (simp add: permits_def)
  with q show ?thesis by blast
qed

lemma content_update_qual:
  "\<exists>q. policy_qual (Suc n) final_catalog d (authenticated_as u) content_items_table UPDATE = Some q
     \<and> (\<forall>c. row_passes q (ContentRow c) = Inr (c_assigned_to c = Some u \<or> has_admin_flag d u))"
proof -
  obtain q where q: "policy_qual (Suc n) final_catalog d (authenticated_as u)
      content_items_table UPDATE = Some q"
    using permits_update [of n d u undefined] by (auto simp add: permits_qual)
  have "row_passes q (ContentRow c) = Inr (c_assigned_to c = Some u \<or> has_admin_flag d u)" for c
    using permits_update [of n d u c] q by (simp add: permits_def)
  with q show ?thesis by blast
qed

lemma content_update_check:
  "\<exists>q. policy_check (Suc n) final_catalog d (authenticated_as u) content_items_table UPDATE = Some q
     \<and> (\<forall>c. row_passes q (ContentRow c) = Inr (c_assigned_to c = Some u \<or> has_admin_flag d u))"
proof -
  obtain q where q: "policy_check (Suc n) final_catalog d (authenticated_as u)
      content_items_table UPDATE = Some q"
    using check_permits_update [of n d u undefined]
    by (auto simp add: check_permits_def split: option.splits)
  have "row_passes q (ContentRow c) = Inr (c_assigned_to c = Some u \<or> has_admin_flag d u)" for c
    using check_permits_update [of n d u c] q by (simp add: check_permits_def)
  with q show ?thesis by blast
qed

lemma profiles_select_qual:
  "\<exists>q. policy_qual (Suc n) final_catalog d (authenticated_as u) profiles_table SELECT = Some q
     \<and> (\<forall>p. row_passes q (ProfileRow p) = Inr (p_id p = u \<or> has_admin_flag d u))"
proof -
  obtain q where q: "policy_qual (Suc n) final_catalog d (authenticated_as u)
      profiles_table SELECT = Some q"
    using permits_profile [of n d u undefined] by (auto simp add: permits_qual)
  have "row_passes q (ProfileRow p) = Inr (p_id p = u \<or> has_admin_flag d u)" for p
    using permits_profile [of n d u p] q by (simp add: permits_def)
  with q show ?thesis by blast
qed

lemma select_content_items_final:
  "select_content_items (Suc n) final_catalog d (authenticated_as u)
     = Some (Inr (filter (\<lambda>c. c_assigned_to c = Some u \<or> has_admin_flag d u) (content_items d)))"
proof -
  obtain q where q: "policy_qual (Suc n) final_catalog d (authenticated_as u)
      content_items_table SELECT = Some q"
    and pass: "\<And>c. row_passes q (ContentRow c) = Inr (c_assigned_to c = Some u \<or> has_admin_flag d u)"
    using content_select_qual [of n d u] by blast
  show ?thesis
    by (simp add: select_content_items_def q filter_rows_passes [of q ContentRow, OF pass])
qed

lemma select_profiles_final:
  "select_profiles (Suc n) final_catalog d (authenticated_as u)
     = Some (Inr (filter (\<lambda>p. p_id p = u \<or> has_admin_flag d u) (profiles d)))"
proof -
  obtain q where q: "policy_qual (Suc n) final_catalog d (authenticated_as u)
      profiles_table SELECT = Some q"
    and pass: "\<And>p. row_passes q (ProfileRow p) = Inr (p_id p = u \<or> has_admin_flag d u)"
    using profiles_select_qual [of n d u] by blast
  show ?thesis
    by (simp add: select_profiles_def q filter_rows_passes [of q ProfileRow, OF pass])
qed

lemmas example_simps = has_admin_flag_def example_db_def admin_profile_def client_profile_def
  other_profile_def example_item_def

text \<open>
  Claim C2. Under the final policies an authenticated principal \<open>u\<close> can read a content
  item \<open>c\<close> if and only if \<open>c\<close> is assigned to \<open>u\<close> or \<open>u\<close>'s profile has the admin
  flag set; a query returns exactly those rows of the table.
\<close>

theorem content_read_rule:
  "permits (Suc n) final_catalog d (authenticated_as u) content_items_table SELECT (ContentRow c)
     = Some (Inr (c_assigned_to c = Some u \<or> has_admin_flag d u))
   \<and> select_content_items (Suc n) final_catalog d (authenticated_as u)
     = Some (Inr (filter (\<lambda>c. c_assigned_to c = Some u \<or> has_admin_flag d u) (content_items d)))"
  by (simp add: permits_content select_content_items_final)

theorem content_read_rule_witness:
  "permits (Suc 0) final_catalog example_db (authenticated_as 2) content_items_table SELECT
     (ContentRow example_item) = Some (Inr True)
   \<and> permits (Suc 0) final_catalog example_db (authenticated_as 3) content_items_table SELECT
     (ContentRow example_item) = Some (Inr False)
   \<and> permits (Suc 0) final_catalog example_db (authenticated_as 1) content_items_table SELECT
     (ContentRow example_item) = Some (Inr True)
   \<and> select_content_items (Suc 0) final_catalog example_db (authenticated_as 3) = Some (Inr [])"
  using content_read_rule [of 0 example_db 2 example_item]
    content_read_rule [of 0 example_db 3 example_item]
    content_read_rule [of 0 example_db 1 example_item]
  by (simp add: example_simps)

text \<open>
  Claim C5. Under the final policies the insert policy of \<^verbatim>\<open>content_items\<close> holds
  for an authenticated principal if and only if its profile has the admin flag set;
  every insert attempted by a principal without the flag fails, and an insert by a
  principal with the flag is stored when the row meets the table's constraints.
\<close>

theorem content_insert_rule:
  "check_permits (Suc n) final_catalog d (authenticated_as u) content_items_table INSERT
     (ContentRow r) = Some (Inr (has_admin_flag d u))
   \<and> (\<not> has_admin_flag d u \<longrightarrow>
        insert_content_item (Suc n) final_catalog d (authenticated_as u) fresh now p
          = Some (Inl not_null_violation)
        \<or> insert_content_item (Suc n) final_catalog d (authenticated_as u) fresh now p
          = Some (Inl rls_violation))
   \<and> (has_admin_flag d u \<and> new_content_row fresh now p = Some r
        \<and> content_type_check (c_content_type r) \<and> status_check (c_status r)
        \<and> c_id r \<notin> set (map c_id (content_items d))
        \<and> references_profile d (c_created_by r) \<and> references_profile d (c_assigned_to r) \<longrightarrow>
        insert_content_item (Suc n) final_catalog d (authenticated_as u) fresh now p
          = Some (Inr (d\<lparr>content_items := content_items d @ [r]\<rparr>)))"
  by (cases "new_content_row fresh now p")
    (simp_all add: insert_content_item_def check_permits_insert)

theorem content_insert_rule_witness:
  "\<not> has_admin_flag example_db 2
   \<and> insert_content_item (Suc 0) final_catalog example_db (authenticated_as 2) 11 5 approved_request
       = Some (Inl rls_violation)
   \<and> has_admin_flag example_db 1
   \<and> (\<exists>d'. insert_content_item (Suc 0) final_catalog example_db (authenticated_as 1) 11 5
              approved_request = Some (Inr d'))"
proof -
  have non_admin: "\<not> has_admin_flag example_db 2" and admin: "has_admin_flag example_db 1"
    by (simp_all add: example_simps)
  have row: "new_content_row 11 5 approved_request \<noteq> None"
    by (simp add: new_content_row_def approved_request_def column_value_def)
  then obtain r where r: "new_content_row 11 5 approved_request = Some r" by blast
  have fails: "insert_content_item (Suc 0) final_catalog example_db (authenticated_as 2) 11 5
      approved_request = Some (Inl rls_violation)"
    using content_insert_rule [of 0 example_db 2 r 11 5 approved_request] non_admin r
    by (simp add: insert_content_item_def)
  have ok: "content_type_check (c_content_type r) \<and> status_check (c_status r)
      \<and> c_id r \<notin> set (map c_id (content_items example_db))
      \<and> references_profile example_db (c_created_by r)
      \<and> references_profile example_db (c_assigned_to r)"
    using r
    by (auto simp add: new_content_row_def approved_request_def column_value_def
        content_type_check_def status_check_def references_profile_def example_simps)
  have "insert_content_item (Suc 0) final_catalog example_db (authenticated_as 1) 11 5
      approved_request = Some (Inr (example_db\<lparr>content_items := content_items example_db @ [r]\<rparr>))"
    using content_insert_rule [of 0 example_db 1 r 11 5 approved_request] admin r ok by simp
  with non_admin admin fails show ?thesis by simp
qed

text \<open>
  Claim C6. Under the final policies an authenticated principal \<open>u\<close> may update a
  content item \<open>c\<close> if and only if \<open>c\<close> is assigned to \<open>u\<close> or \<open>u\<close> has the admin
  flag, and the row as updated is accepted under the same condition. The narrower
  policy on the rejection notes, taken alone, lets exactly the assignee update the row,
  and accepts the row with the rejection columns set exactly for the assignee.
\<close>

theorem content_update_rule:
  "permits (Suc n) final_catalog d (authenticated_as u) content_items_table UPDATE (ContentRow c)
     = Some (Inr (c_assigned_to c = Some u \<or> has_admin_flag d u))
   \<and> check_permits (Suc n) final_catalog d (authenticated_as u) content_items_table UPDATE
       (ContentRow c) = Some (Inr (c_assigned_to c = Some u \<or> has_admin_flag d u))
   \<and> permits n (policy_alone rejection_notes_policy) d (authenticated_as u) content_items_table
       UPDATE (ContentRow c) = Some (Inr (c_assigned_to c = Some u))
   \<and> check_permits n (policy_alone rejection_notes_policy) d (authenticated_as u)
       content_items_table UPDATE (ContentRow (apply_update (reject_update notes now) c))
       = Some (Inr (c_assigned_to c = Some u))"
proof -
  have alone: "\<not> bypass_rls (policy_alone rejection_notes_policy) (authenticated_as u)
        content_items_table"
    "using_exprs (policy_alone rejection_notes_policy) (authenticated_as u)
        content_items_table UPDATE = [AssignedToEqUid]"
    "check_exprs (policy_alone rejection_notes_policy) (authenticated_as u)
        content_items_table UPDATE = [AssignedToEqUid]"
    by (simp_all add: policy_alone_def catalog_simps)
  have kept: "c_assigned_to (apply_update (reject_update notes now) c) = c_assigned_to c"
    by (simp add: apply_update_def reject_update_def column_value_def)
  have narrow: "permits n (policy_alone rejection_notes_policy) d (authenticated_as u)
        content_items_table UPDATE (ContentRow c) = Some (Inr (c_assigned_to c = Some u))"
    by (auto simp add: permits_def policy_qual_def alone row_passes_def or_result_def sql_or_def
        sql_eq_def auth_uid_authenticated split: option.splits)
  have narrow_check: "check_permits n (policy_alone rejection_notes_policy) d (authenticated_as u)
        content_items_table UPDATE (ContentRow (apply_update (reject_update notes now) c))
        = Some (Inr (c_assigned_to c = Some u))"
    by (auto simp add: check_permits_def policy_check_def alone row_passes_def or_result_def
        sql_or_def sql_eq_def auth_uid_authenticated kept split: option.splits)
  show ?thesis
    by (simp only: permits_update check_permits_update narrow narrow_check simp_thms)
qed

theorem content_update_rule_witness:
  "permits (Suc 0) final_catalog example_db (authenticated_as 2) content_items_table UPDATE
     (ContentRow example_item) = Some (Inr True)
   \<and> permits (Suc 0) final_catalog example_db (authenticated_as 3) content_items_table UPDATE
     (ContentRow example_item) = Some (Inr False)
   \<and> permits (Suc 0) final_catalog example_db (authenticated_as 1) content_items_table UPDATE
     (ContentRow example_item) = Some (Inr True)
   \<and> permits 0 (policy_alone rejection_notes_policy) example_db (authenticated_as 1)
       content_items_table UPDATE (ContentRow example_item) = Some (Inr False)
   \<and> check_permits 0 (policy_alone rejection_notes_policy) example_db (authenticated_as 2)
       content_items_table UPDATE
       (ContentRow (apply_update (reject_update ''No'' 7) example_item)) = Some (Inr True)"
  using content_update_rule [of 0 example_db 2 example_item "''No''" 7]
    content_update_rule [of 0 example_db 3 example_item "''No''" 7]
    content_update_rule [of 0 example_db 1 example_item "''No''" 7]
  by (simp add: example_simps)

section \<open>Termination of policy evaluation\<close>

text \<open>
  The policies of the first migration query \<^verbatim>\<open>profiles\<close> from within a policy on
  \<^verbatim>\<open>profiles\<close>: their expansion ends with no amount of fuel.
\<close>

lemma first_profiles_select:
  "using_exprs first_catalog (authenticated_as u) profiles_table SELECT
     = [IdEqUid, ExistsAdminProfile]"
  by (simp add: using_exprs_def applicable_def first_catalog_def mk_policy_def
      authenticated_as_def List.map_filter_simps)

lemma first_no_bypass: "\<not> bypass_rls first_catalog (authenticated_as u) profiles_table"
  by (simp add: bypass_rls_def first_catalog_def authenticated_as_def)

lemma first_catalog_scan_diverges:
  "scan_profiles n first_catalog d (authenticated_as u) = None"
proof (induction n)
  case 0
  show ?case by (simp add: first_no_bypass)
next
  case (Suc n)
  then show ?case by (simp add: first_no_bypass first_profiles_select)
qed

lemma first_catalog_profiles_diverge:
  "select_profiles n first_catalog d (authenticated_as u) = None"
  by (simp add: select_profiles_def policy_qual_def first_no_bypass first_profiles_select
      first_catalog_scan_diverges)

text \<open>
  Claim C1. One step of evaluation gives the value of \<^verbatim>\<open>is_admin()\<close>, for every
  session and whatever policies the catalog holds: the value is the one lookup
  \<open>exists_admin\<close> over the rows of \<^verbatim>\<open>profiles\<close>, and no policy on
  \<^verbatim>\<open>profiles\<close> is expanded to find it. Consequently, under the final policies, the
  evaluation of the profile-read policies ends for every database and every
  authenticated principal, and a query on \<^verbatim>\<open>profiles\<close> returns its rows.
\<close>

theorem is_admin_single_lookup:
  "is_admin (Suc n) cat d s = Some (\<lambda>r. Inr (exists_admin s (profiles d)))
   \<and> is_admin (Suc n) cat d (authenticated_as u) = Some (\<lambda>r. Inr (Some (has_admin_flag d u)))
   \<and> (\<exists>q. policy_qual (Suc n) final_catalog d (authenticated_as u) profiles_table SELECT = Some q)
   \<and> select_profiles (Suc n) final_catalog d (authenticated_as u)
       = Some (Inr (filter (\<lambda>p. p_id p = u \<or> has_admin_flag d u) (profiles d)))"
proof -
  have a: "is_admin (Suc n) cat d s = Some (\<lambda>r. Inr (exists_admin s (profiles d)))"
    unfolding is_admin_def by (rule call_is_admin)
  have b: "is_admin (Suc n) cat d (authenticated_as u)
      = Some (\<lambda>r. Inr (Some (has_admin_flag d u)))"
    unfolding is_admin_def by (rule call_is_admin_auth)
  have c: "\<exists>q. policy_qual (Suc n) final_catalog d (authenticated_as u) profiles_table SELECT
      = Some q"
    using profiles_select_qual [of n d u] by blast
  from a b c select_profiles_final [of n d u] show ?thesis by blast
qed

theorem is_admin_single_lookup_witness:
  "is_admin (Suc 0) first_catalog example_db (authenticated_as 1) = Some (\<lambda>r. Inr (Some True))
   \<and> is_admin (Suc 0) final_catalog example_db (authenticated_as 2) = Some (\<lambda>r. Inr (Some False))
   \<and> select_profiles (Suc 0) final_catalog example_db (authenticated_as 2)
       = Some (Inr [client_profile])
   \<and> select_profiles (Suc 0) final_catalog example_db (authenticated_as 1)
       = Some (Inr [admin_profile, client_profile, other_profile])"
  using is_admin_single_lookup [of 0 first_catalog example_db "authenticated_as 1" 1]
    is_admin_single_lookup [of 0 final_catalog example_db "authenticated_as 2" 2]
    is_admin_single_lookup [of 0 final_catalog example_db "authenticated_as 1" 1]
  by (simp add: example_simps exists_admin_def admin_where_def sql_and_def sql_eq_def
      authenticated_as_def)

section \<open>The hook on new users\<close>

lemma handle_new_user_result:
  "handle_new_user d now new = Inr d' \<longleftrightarrow>
     (\<exists>e. u_email new = Some e
        \<and> u_id new \<notin> set (map p_id (profiles d))
        \<and> e \<notin> set (map p_email (profiles d))
        \<and> u_id new \<in> set (map u_id (auth_users d))
        \<and> d' = d\<lparr>profiles := profiles d @
               [\<lparr>p_id = u_id new, p_email = e, p_full_name = u_meta_full_name new,
                 p_is_admin = Some (e = bootstrap_email),
                 p_created_at = Some now, p_updated_at = Some now\<rparr>]\<rparr>)"
  by (cases "u_email new") (auto simp add: handle_new_user_def sql_eq_def)

lemma on_auth_user_created_result:
  "on_auth_user_created d now new = Inr d' \<longleftrightarrow>
     (\<exists>e. u_email new = Some e
        \<and> u_id new \<notin> set (map u_id (auth_users d))
        \<and> u_id new \<notin> set (map p_id (profiles d))
        \<and> e \<notin> set (map p_email (profiles d))
        \<and> d' = \<lparr>auth_users = auth_users d @ [new],
                 profiles = profiles d @
                   [\<lparr>p_id = u_id new, p_email = e, p_full_name = u_meta_full_name new,
                     p_is_admin = Some (e = bootstrap_email),
                     p_created_at = Some now, p_updated_at = Some now\<rparr>],
                 content_items = content_items d\<rparr>)"
  by (auto simp add: on_auth_user_created_def handle_new_user_result)

text \<open>
  Claim C9. Whenever a user is created (the insert into \<^verbatim>\<open>auth.users\<close> with its
  trigger succeeds), the hook has added exactly one row to \<^verbatim>\<open>profiles\<close>; the row
  carries the new user's id and email, and its admin flag is true if and only if the
  email is the bootstrap address \<^verbatim>\<open>geral@stagelink.pt\<close>. The creation succeeds for
  every new user with an email whose id and email are not taken.
\<close>

theorem new_user_profile:
  "(on_auth_user_created d now new = Inr d' \<longrightarrow>
      (\<exists>p. profiles d' = profiles d @ [p]
         \<and> p_id p = u_id new
         \<and> Some (p_email p) = u_email new
         \<and> (p_is_admin p = Some True) = (u_email new = Some ''geral@stagelink.pt'')
         \<and> (p_is_admin p = Some False) = (u_email new \<noteq> Some ''geral@stagelink.pt'')))
   \<and> (u_email new = Some e \<and> u_id new \<notin> set (map u_id (auth_users d))
        \<and> u_id new \<notin> set (map p_id (profiles d)) \<and> e \<notin> set (map p_email (profiles d)) \<longrightarrow>
      (\<exists>d''. on_auth_user_created d now new = Inr d''))"
  by (auto simp add: on_auth_user_created_result bootstrap_email_def)

theorem new_user_profile_witness:
  "on_auth_user_created example_db 9
      \<lparr>u_id = 4, u_email = Some ''new@example.com'', u_meta_full_name = None\<rparr>
     = Inr (example_db
         \<lparr>auth_users := auth_users example_db @
            [\<lparr>u_id = 4, u_email = Some ''new@example.com'', u_meta_full_name = None\<rparr>],
          profiles := profiles example_db @
            [\<lparr>p_id = 4, p_email = ''new@example.com'', p_full_name = None,
              p_is_admin = Some False, p_created_at = Some 9, p_updated_at = Some 9\<rparr>]\<rparr>)
   \<and> (\<exists>p. profiles (example_db
         \<lparr>auth_users := auth_users example_db @
            [\<lparr>u_id = 4, u_email = Some ''new@example.com'', u_meta_full_name = None\<rparr>],
          profiles := profiles example_db @
            [\<lparr>p_id = 4, p_email = ''new@example.com'', p_full_name = None,
              p_is_admin = Some False, p_created_at = Some 9, p_updated_at = Some 9\<rparr>]\<rparr>)
        = profiles example_db @ [p] \<and> p_id p = 4 \<and> p_is_admin p = Some False)"
proof -
  let ?new = "\<lparr>u_id = 4, u_email = Some ''new@example.com'', u_meta_full_name = None\<rparr>"
  let ?d' = "example_db
         \<lparr>auth_users := auth_users example_db @ [?new],
          profiles := profiles example_db @
            [\<lparr>p_id = 4, p_email = ''new@example.com'', p_full_name = None,
              p_is_admin = Some False, p_created_at = Some 9, p_updated_at = Some 9\<rparr>]\<rparr>"
  have run: "on_auth_user_created example_db 9 ?new = Inr ?d'"
    by (simp add: on_auth_user_created_def handle_new_user_def sql_eq_def bootstrap_email_def
        example_simps)
  from new_user_profile [of example_db 9 ?new ?d' "''new@example.com''"] run
  have "\<exists>p. profiles ?d' = profiles example_db @ [p] \<and> p_id p = u_id ?new
      \<and> (p_is_admin p = Some False) = (u_email ?new \<noteq> Some ''geral@stagelink.pt'')"
    by blast
  then have "\<exists>p. profiles ?d' = profiles example_db @ [p] \<and> p_id p = 4 \<and> p_is_admin p = Some False"
    by simp
  with run show ?thesis by blast
qed

section \<open>Who the pages treat as an admin\<close>

text \<open>
  Claim C10. The pages decide who is an admin by comparing the profile's email with
  \<^verbatim>\<open>geral@stagelink.pt\<close> and never read the profile's \<^verbatim>\<open>is_admin\<close> flag: a
  profile with the flag set and another email is not an admin to the dashboard and is
  denied the admin dashboard, and two profiles with the same email are treated alike.
\<close>

theorem ui_admin_by_email:
  "isAdmin (Some p) = (p_email p = ''geral@stagelink.pt'')
   \<and> (AdminDashboard (Some p) = AdminPage) = (p_email p = ''geral@stagelink.pt'')
   \<and> (p_is_admin p = Some True \<and> p_email p \<noteq> ''geral@stagelink.pt'' \<longrightarrow>
        \<not> isAdmin (Some p) \<and> AdminDashboard (Some p) = AccessDenied)
   \<and> (p_email p = p_email q \<longrightarrow>
        isAdmin (Some p) = isAdmin (Some q) \<and> AdminDashboard (Some p) = AdminDashboard (Some q))
   \<and> \<not> isAdmin None \<and> AdminDashboard None = AccessDenied"
  by (simp add: isAdmin_def AdminDashboard_def)

theorem ui_admin_by_email_witness:
  "p_is_admin (client_profile\<lparr>p_is_admin := Some True\<rparr>) = Some True
   \<and> p_email (client_profile\<lparr>p_is_admin := Some True\<rparr>) \<noteq> ''geral@stagelink.pt''
   \<and> \<not> isAdmin (Some (client_profile\<lparr>p_is_admin := Some True\<rparr>))
   \<and> AdminDashboard (Some (client_profile\<lparr>p_is_admin := Some True\<rparr>)) = AccessDenied
   \<and> isAdmin (Some (admin_profile\<lparr>p_is_admin := Some False\<rparr>))"
  using ui_admin_by_email [of "client_profile\<lparr>p_is_admin := Some True\<rparr>" client_profile]
    ui_admin_by_email [of "admin_profile\<lparr>p_is_admin := Some False\<rparr>" admin_profile]
  by (simp add: client_profile_def admin_profile_def)

section \<open>Current and archived content\<close>

lemma is_archived_midnights:
  "is_archived parse midnight now item =
     (case parse (item_schedule_date item) of
        None \<Rightarrow> False
      | Some t \<Rightarrow> midnight t < midnight now)"
  by (cases "parse (item_schedule_date item)")
    (simp_all add: is_archived_def today_def startOfDay_def isBefore_def)

lemma partition_step_archived:
  "partition_step parse midnight now acc i =
     (if is_archived parse midnight now i
      then acc\<lparr>archivedContent := archivedContent acc @ [i]\<rparr>
      else acc\<lparr>currentContent := currentContent acc @ [i]\<rparr>)"
  by (simp add: partition_step_def is_archived_def)

lemma partition_step_fold:
  "foldl (partition_step parse midnight now) acc items =
     \<lparr>currentContent = currentContent acc @ filter (\<lambda>i. \<not> is_archived parse midnight now i) items,
      archivedContent = archivedContent acc @ filter (is_archived parse midnight now) items\<rparr>"
proof (induction items arbitrary: acc)
  case Nil
  show ?case by simp
next
  case (Cons i items)
  have "foldl (partition_step parse midnight now) acc (i # items)
      = foldl (partition_step parse midnight now) (partition_step parse midnight now acc i) items"
    by (simp only: foldl.simps)
  also have "\<dots> =
      \<lparr>currentContent = currentContent (partition_step parse midnight now acc i)
         @ filter (\<lambda>i. \<not> is_archived parse midnight now i) items,
       archivedContent = archivedContent (partition_step parse midnight now acc i)
         @ filter (is_archived parse midnight now) items\<rparr>"
    by (rule Cons.IH)
  also have "\<dots> =
      \<lparr>currentContent = currentContent acc
         @ filter (\<lambda>i. \<not> is_archived parse midnight now i) (i # items),
       archivedContent = archivedContent acc
         @ filter (is_archived parse midnight now) (i # items)\<rparr>"
    by (simp add: partition_step_archived)
  finally show ?case .
qed

lemma partition_content_filter:
  "partition_content parse midnight now items =
     \<lparr>currentContent = filter (\<lambda>i. \<not> is_archived parse midnight now i) items,
      archivedContent = filter (is_archived parse midnight now) items\<rparr>"
  unfolding partition_content_def by (simp only: partition_step_fold) simp

lemma filteredItems_archive:
  "filteredItems parse midnight now ArchiveView selectedType selectedStatus selectedClient items
     = filter (is_archived parse midnight now) items"
  by (simp add: filteredItems_def is_archived_def [abs_def])

text \<open>
  Claim C8. An item read at time \<open>now\<close> is archived if and only if the start of the day
  of its schedule date is strictly before the start of the current day: its date
  parses, and the local midnight that begins its day is an earlier instant than the
  local midnight that begins the day of \<open>now\<close>. This holds for whatever
  \<^verbatim>\<open>startOfDay\<close> gives in the browser's time zone, so the class depends on the
  schedule date only through the day it falls on; an item whose date does not parse is
  not archived. The partition is a function of \<open>now\<close> and the items read: the
  archived list holds the archived items, the current list all the others, in their
  order, so every item is in exactly one of the two lists; the archive view shows the
  archived list.
\<close>

theorem archive_partition:
  "is_archived parse midnight now item
     = isBefore (startOfDay midnight (parse (item_schedule_date item)))
         (startOfDay midnight (Some now))
   \<and> is_archived parse midnight now item
     = (case parse (item_schedule_date item) of
          None \<Rightarrow> False
        | Some t \<Rightarrow> midnight t < midnight now)
   \<and> archivedContent (partition_content parse midnight now items)
     = filter (is_archived parse midnight now) items
   \<and> currentContent (partition_content parse midnight now items)
     = filter (\<lambda>i. \<not> is_archived parse midnight now i) items
   \<and> filteredItems parse midnight now ArchiveView selectedType selectedStatus selectedClient items
     = archivedContent (partition_content parse midnight now items)
   \<and> set (archivedContent (partition_content parse midnight now items))
       \<inter> set (currentContent (partition_content parse midnight now items)) = {}
   \<and> set (archivedContent (partition_content parse midnight now items))
       \<union> set (currentContent (partition_content parse midnight now items)) = set items
   \<and> mset (archivedContent (partition_content parse midnight now items))
       + mset (currentContent (partition_content parse midnight now items)) = mset items"
proof -
  have a: "is_archived parse midnight now item
      = isBefore (startOfDay midnight (parse (item_schedule_date item)))
          (startOfDay midnight (Some now))"
    by (simp add: is_archived_def today_def)
  have c: "set (filter (is_archived parse midnight now) items)
      \<inter> set (filter (\<lambda>i. \<not> is_archived parse midnight now i) items) = {}"
    by auto
  have d: "set (filter (is_archived parse midnight now) items)
      \<union> set (filter (\<lambda>i. \<not> is_archived parse midnight now i) items) = set items"
    by auto
  have e: "mset (filter (is_archived parse midnight now) items)
      + mset (filter (\<lambda>i. \<not> is_archived parse midnight now i) items) = mset items"
    by simp
  from a c d e is_archived_midnights [of parse midnight now item] show ?thesis
    by (simp only: partition_content_filter filteredItems_archive content_partition.simps simp_thms)
qed

theorem archive_partition_witness:
  "is_archived example_parse example_midnight 180000000 yesterday_item
   \<and> is_archived example_parse example_midnight 180000000 last_night_item
   \<and> \<not> is_archived example_parse example_midnight 180000000 today_item
   \<and> \<not> is_archived example_parse example_midnight 180000000 undated_item
   \<and> archivedContent (partition_content example_parse example_midnight 180000000
        [yesterday_item, today_item, last_night_item, undated_item])
       = [yesterday_item, last_night_item]
   \<and> currentContent (partition_content example_parse example_midnight 180000000
        [yesterday_item, today_item, last_night_item, undated_item])
       = [today_item, undated_item]
   \<and> filteredItems example_parse example_midnight 180000000 ArchiveView ''all'' ''all'' ''all''
        [yesterday_item, today_item, last_night_item, undated_item]
       = [yesterday_item, last_night_item]"
proof -
  note ap = archive_partition [where parse = example_parse and midnight = example_midnight
      and now = 180000000
      and items = "[yesterday_item, today_item, last_night_item, undated_item]"
      and selectedType = "''all''" and selectedStatus = "''all''" and selectedClient = "''all''"]
  note midnights = ap [THEN conjunct2, THEN conjunct1]
  note rest = ap [of yesterday_item, THEN conjunct2, THEN conjunct2]
  have y: "is_archived example_parse example_midnight 180000000 yesterday_item"
    using midnights [of yesterday_item]
    by (simp add: example_parse_def yesterday_item_def example_midnight_def)
  have l: "is_archived example_parse example_midnight 180000000 last_night_item"
    using midnights [of last_night_item]
    by (simp add: example_parse_def last_night_item_def example_midnight_def)
  have t: "\<not> is_archived example_parse example_midnight 180000000 today_item"
    using midnights [of today_item]
    by (simp add: example_parse_def today_item_def example_midnight_def)
  have u: "\<not> is_archived example_parse example_midnight 180000000 undated_item"
    using midnights [of undated_item]
    by (simp add: example_parse_def undated_item_def)
  have arch: "archivedContent (partition_content example_parse example_midnight 180000000
        [yesterday_item, today_item, last_night_item, undated_item])
       = [yesterday_item, last_night_item]"
    using rest [THEN conjunct1] y l t u by simp
  have cur: "currentContent (partition_content example_parse example_midnight 180000000
        [yesterday_item, today_item, last_night_item, undated_item])
       = [today_item, undated_item]"
    using rest [THEN conjunct2, THEN conjunct1] y l t u by simp
  have view: "filteredItems example_parse example_midnight 180000000 ArchiveView
        ''all'' ''all'' ''all'' [yesterday_item, today_item, last_night_item, undated_item]
       = [yesterday_item, last_night_item]"
    using rest [THEN conjunct2, THEN conjunct2, THEN conjunct1] arch by simp
  from y l t u arch cur view show ?thesis by simp
qed

section \<open>Creating content\<close>

lemma insert_content_item_stored:
  assumes "insert_content_item n cat d s fresh now p = Some (Inr d')"
  shows "\<exists>r. new_content_row fresh now p = Some r
           \<and> d' = d\<lparr>content_items := content_items d @ [r]\<rparr>
           \<and> c_status r = column_value (Some ''Pending'') (ins_status p)"
proof (cases "new_content_row fresh now p")
  case None
  with assms show ?thesis by (simp add: insert_content_item_def)
next
  case (Some r)
  have st: "c_status r = column_value (Some ''Pending'') (ins_status p)"
    using Some by (auto simp add: new_content_row_def split: option.splits)
  from assms Some have "d' = d\<lparr>content_items := content_items d @ [r]\<rparr>"
    by (auto simp add: insert_content_item_def split: option.splits sum.splits if_splits)
  with Some st show ?thesis by simp
qed

lemma db_append_neq: "d\<lparr>content_items := content_items d @ [r]\<rparr> \<noteq> d"
proof
  assume "d\<lparr>content_items := content_items d @ [r]\<rparr> = d"
  then have "content_items (d\<lparr>content_items := content_items d @ [r]\<rparr>) = content_items d"
    by simp
  then show False by simp
qed

text \<open>
  Claim C3, as the code has it. The status of a stored row is the status the request
  supplies, and \<^verbatim>\<open>Pending\<close> (the column's default) when the request supplies none;
  no policy, constraint or trigger replaces a supplied status. The request that
  \<^verbatim>\<open>handleSubmit\<close> builds always supplies \<^verbatim>\<open>Pending\<close>, so a row it inserts is
  stored as \<^verbatim>\<open>Pending\<close>: the forcing is the client's.
\<close>

theorem insert_status_from_request:
  "(insert_content_item n cat d s fresh now p = Some (Inr d') \<longrightarrow>
      (\<exists>r. content_items d' = content_items d @ [r]
         \<and> c_status r = (case ins_status p of None \<Rightarrow> Some ''Pending'' | Some v \<Rightarrow> v)))
   \<and> ins_status (submit_request prof f sched) = Some (Some ''Pending'')
   \<and> (handleSubmit n cat s prof to_timestamptz fresh now today_text st d = Some (a, st', d')
        \<and> d' \<noteq> d \<longrightarrow>
      (\<exists>r. content_items d' = content_items d @ [r] \<and> c_status r = Some ''Pending''))"
proof -
  have one: "insert_content_item n cat d s fresh now p = Some (Inr d') \<longrightarrow>
      (\<exists>r. content_items d' = content_items d @ [r]
         \<and> c_status r = (case ins_status p of None \<Rightarrow> Some ''Pending'' | Some v \<Rightarrow> v))"
  proof
    assume "insert_content_item n cat d s fresh now p = Some (Inr d')"
    from insert_content_item_stored [OF this] show "\<exists>r. content_items d' = content_items d @ [r]
         \<and> c_status r = (case ins_status p of None \<Rightarrow> Some ''Pending'' | Some v \<Rightarrow> v)"
      by (auto simp add: column_value_def)
  qed
  have two: "ins_status (submit_request prof f sched) = Some (Some ''Pending'')"
    by (simp add: submit_request_def)
  have three: "handleSubmit n cat s prof to_timestamptz fresh now today_text st d = Some (a, st', d')
        \<and> d' \<noteq> d \<longrightarrow>
      (\<exists>r. content_items d' = content_items d @ [r] \<and> c_status r = Some ''Pending'')"
  proof
    assume h: "handleSubmit n cat s prof to_timestamptz fresh now today_text st d = Some (a, st', d')
        \<and> d' \<noteq> d"
    then obtain t where ins: "insert_content_item n cat d s fresh now
        (submit_request prof (formData st) (Some t)) = Some (Inr d')"
      by (auto simp add: handleSubmit_def split: if_splits option.splits sum.splits)
    from insert_content_item_stored [OF ins]
    show "\<exists>r. content_items d' = content_items d @ [r] \<and> c_status r = Some ''Pending''"
      by (auto simp add: column_value_def submit_request_def)
  qed
  from one two three show ?thesis by blast
qed

theorem insert_status_from_request_witness:
  "handleSubmit (Suc 0) final_catalog (authenticated_as 1) (Some admin_profile)
      example_to_timestamptz 11 5 ''1970-01-03'' example_state example_db
     = Some (None,
         example_state\<lparr>showForm := False, formData := empty_form ''1970-01-03''\<rparr>,
         example_db\<lparr>content_items := content_items example_db @
           [\<lparr>c_id = 11, c_title = Some ''Sale'', c_caption = ''Summer sale'',
             c_content_type = ''Reel'', c_media_url = ''https://drive.example/2'',
             c_status = Some ''Pending'', c_schedule_date = Some 172800000,
             c_created_by = Some 1, c_assigned_to = Some 2, c_created_at = Some 5,
             c_updated_at = Some 5, c_rejection_notes = None, c_rejected_at = None\<rparr>]\<rparr>)
   \<and> (\<exists>r. content_items (example_db\<lparr>content_items := content_items example_db @
           [\<lparr>c_id = 11, c_title = Some ''Sale'', c_caption = ''Summer sale'',
             c_content_type = ''Reel'', c_media_url = ''https://drive.example/2'',
             c_status = Some ''Pending'', c_schedule_date = Some 172800000,
             c_created_by = Some 1, c_assigned_to = Some 2, c_created_at = Some 5,
             c_updated_at = Some 5, c_rejection_notes = None, c_rejected_at = None\<rparr>]\<rparr>)
          = content_items example_db @ [r] \<and> c_status r = Some ''Pending'')"
proof -
  let ?r = "\<lparr>c_id = 11, c_title = Some ''Sale'', c_caption = ''Summer sale'',
             c_content_type = ''Reel'', c_media_url = ''https://drive.example/2'',
             c_status = Some ''Pending'', c_schedule_date = Some 172800000,
             c_created_by = Some 1, c_assigned_to = Some 2, c_created_at = Some 5,
             c_updated_at = Some 5, c_rejection_notes = None, c_rejected_at = None\<rparr>"
  let ?d' = "example_db\<lparr>content_items := content_items example_db @ [?r]\<rparr>"
  let ?st' = "example_state\<lparr>showForm := False, formData := empty_form ''1970-01-03''\<rparr>"
  have row: "new_content_row 11 5
      (submit_request (Some admin_profile) example_form (Some 172800000)) = Some ?r"
    by (simp add: new_content_row_def submit_request_def example_form_def column_value_def
        admin_profile_def)
  have ins: "insert_content_item (Suc 0) final_catalog example_db (authenticated_as 1) 11 5
      (submit_request (Some admin_profile) example_form (Some 172800000)) = Some (Inr ?d')"
    unfolding insert_content_item_def row
    by (simp add: check_permits_insert content_type_check_def status_check_def
        references_profile_def example_simps)
  have run: "handleSubmit (Suc 0) final_catalog (authenticated_as 1) (Some admin_profile)
      example_to_timestamptz 11 5 ''1970-01-03'' example_state example_db = Some (None, ?st', ?d')"
  proof -
    have form: "formData example_state = example_form"
      by (simp add: example_state_def)
    have assigned: "f_assigned_to example_form = Some 2"
      and date: "example_to_timestamptz (f_schedule_date example_form) = Some 172800000"
      by (simp_all add: example_form_def example_to_timestamptz_def)
    show ?thesis
      using ins unfolding handleSubmit_def form assigned date by simp
  qed
  have neq: "?d' \<noteq> example_db" by (rule db_append_neq)
  from insert_status_from_request [of "Suc 0" final_catalog example_db "authenticated_as 1" 11 5
      approved_request ?d' "Some admin_profile" example_form None example_to_timestamptz
      "''1970-01-03''" example_state None ?st'] run neq
  have "\<exists>r. content_items ?d' = content_items example_db @ [r] \<and> c_status r = Some ''Pending''"
    by blast
  with run show ?thesis by blast
qed

text \<open>
  Claim C3 as stated fails: an admin who sends a request with status \<^verbatim>\<open>Approved\<close> to
  the database has the row stored as \<^verbatim>\<open>Approved\<close>.
\<close>

theorem admin_insert_status_counterexample:
  "has_admin_flag example_db 1
   \<and> ins_status approved_request = Some (Some ''Approved'')
   \<and> insert_content_item (Suc 0) final_catalog example_db (authenticated_as 1) 11 5
       approved_request
     = Some (Inr (example_db\<lparr>content_items := content_items example_db @
         [\<lparr>c_id = 11, c_title = None, c_caption = ''Sale'', c_content_type = ''Reel'',
           c_media_url = ''https://drive.example/2'', c_status = Some ''Approved'',
           c_schedule_date = None, c_created_by = Some 1, c_assigned_to = Some 2,
           c_created_at = Some 5, c_updated_at = Some 5, c_rejection_notes = None,
           c_rejected_at = None\<rparr>]\<rparr>))
   \<and> Some ''Approved'' \<noteq> Some ''Pending''"
proof -
  have row: "new_content_row 11 5 approved_request =
      Some \<lparr>c_id = 11, c_title = None, c_caption = ''Sale'', c_content_type = ''Reel'',
           c_media_url = ''https://drive.example/2'', c_status = Some ''Approved'',
           c_schedule_date = None, c_created_by = Some 1, c_assigned_to = Some 2,
           c_created_at = Some 5, c_updated_at = Some 5, c_rejection_notes = None,
           c_rejected_at = None\<rparr>"
    by (simp add: new_content_row_def approved_request_def column_value_def)
  show ?thesis
    by (simp add: insert_content_item_def row check_permits_insert content_type_check_def
        status_check_def references_profile_def example_simps)
      (simp add: approved_request_def)
qed

section \<open>Rejecting content\<close>

lemma trim_empty_iff: "(trim x = []) = list_all is_white_space x"
proof -
  have drop: "(dropWhile P ys = []) = list_all P ys" for P :: "char \<Rightarrow> bool" and ys
    by (induction ys) simp_all
  show ?thesis
  proof (cases "dropWhile is_white_space x = []")
    case True
    have "trim x = []" unfolding trim_def True by simp
    moreover from True have "list_all is_white_space x"
      using drop [of is_white_space x] by blast
    ultimately show ?thesis by blast
  next
    case False
    then have "\<not> is_white_space (hd (dropWhile is_white_space x))"
      by (rule hd_dropWhile)
    moreover from False
    have "hd (dropWhile is_white_space x) \<in> set (rev (dropWhile is_white_space x))"
      by simp
    ultimately have "\<not> list_all is_white_space (rev (dropWhile is_white_space x))"
      by (auto simp add: list_all_iff)
    then have "dropWhile is_white_space (rev (dropWhile is_white_space x)) \<noteq> []"
      using drop [of is_white_space "rev (dropWhile is_white_space x)"] by blast
    then have "trim x \<noteq> []" unfolding trim_def by (simp only: rev_is_Nil_conv) blast
    moreover from False have "\<not> list_all is_white_space x"
      using drop [of is_white_space x] by blast
    ultimately show ?thesis by blast
  qed
qed

lemma apply_reject_update:
  "apply_update (reject_update notes now) c =
     c\<lparr>c_status := Some ''Rejected'', c_rejection_notes := Some notes, c_rejected_at := Some now\<rparr>"
  by (simp add: apply_update_def reject_update_def column_value_def)

lemma reject_update_violation:
  "update_violation d (reject_update notes now) (apply_update (reject_update notes now) c) =
     (if content_type_check (c_content_type c) then None else Some check_violation)"
  by (simp add: update_violation_def apply_reject_update status_check_def)
    (simp add: reject_update_def)

text \<open>The row a permitted rejection leaves, and the rows of the table after it.\<close>

lemma update_rows_reject:
  assumes "list_all (\<lambda>c. content_type_check (c_content_type c)) cs"
  shows "update_rows (\<lambda>c. Inr (c_assigned_to c = Some u \<or> adm))
           (\<lambda>c. Inr (c_assigned_to c = Some u \<or> adm)) d (reject_update notes now) i cs
         = Inr (map (\<lambda>c. if c_id c = i \<and> (c_assigned_to c = Some u \<or> adm)
                         then c\<lparr>c_status := Some ''Rejected'', c_rejection_notes := Some notes,
                                c_rejected_at := Some now\<rparr>
                         else c) cs)"
  using assms
proof (induction cs)
  case Nil
  show ?case by simp
next
  case (Cons c cs)
  then have ok: "content_type_check (c_content_type c)" by simp
  have row: "update_row (\<lambda>c. Inr (c_assigned_to c = Some u \<or> adm))
           (\<lambda>c. Inr (c_assigned_to c = Some u \<or> adm)) d (reject_update notes now) i c
      = Inr (if c_id c = i \<and> (c_assigned_to c = Some u \<or> adm)
             then c\<lparr>c_status := Some ''Rejected'', c_rejection_notes := Some notes,
                    c_rejected_at := Some now\<rparr>
             else c)"
    unfolding update_row_def reject_update_violation
    by (simp add: ok apply_reject_update)
  from Cons show ?case by (simp add: row)
qed

lemma update_content_items_final:
  "update_content_items (Suc n) final_catalog d (authenticated_as u) p i =
     Some (case update_rows (\<lambda>c. Inr (c_assigned_to c = Some u \<or> has_admin_flag d u))
                  (\<lambda>c. Inr (c_assigned_to c = Some u \<or> has_admin_flag d u))
                  d p i (content_items d) of
             Inl e \<Rightarrow> Inl e
           | Inr rows \<Rightarrow> Inr (d\<lparr>content_items := rows\<rparr>))"
proof -
  obtain qs where qs: "policy_qual (Suc n) final_catalog d (authenticated_as u)
      content_items_table SELECT = Some qs"
    and ps: "\<And>c. row_passes qs (ContentRow c) = Inr (c_assigned_to c = Some u \<or> has_admin_flag d u)"
    using content_select_qual [of n d u] by blast
  obtain qu where qu: "policy_qual (Suc n) final_catalog d (authenticated_as u)
      content_items_table UPDATE = Some qu"
    and pu: "\<And>c. row_passes qu (ContentRow c) = Inr (c_assigned_to c = Some u \<or> has_admin_flag d u)"
    using content_update_qual [of n d u] by blast
  obtain qc where qc: "policy_check (Suc n) final_catalog d (authenticated_as u)
      content_items_table UPDATE = Some qc"
    and pc: "\<And>c. row_passes qc (ContentRow c) = Inr (c_assigned_to c = Some u \<or> has_admin_flag d u)"
    using content_update_check [of n d u] by blast
  show ?thesis
    unfolding update_content_items_def qs qu qc
    by (simp add: ps pu pc and_result_def)
qed

text \<open>
  Claim C4. \<^verbatim>\<open>handleReject\<close> with notes that are empty or only white space issues
  no request: the state and every item stay as they are. With other notes \<open>N\<close> and an
  item chosen, one update statement sets, on each row with that id that the principal
  may update (its assignee, or an admin), the status to \<^verbatim>\<open>Rejected\<close>, the rejection
  notes to \<open>N\<close> and the rejection timestamp to the time of the call, all three at
  once, and leaves every other row as it is. The rows stored satisfy the
  \<^verbatim>\<open>CHECK\<close> on \<^verbatim>\<open>content_type\<close>.
\<close>

theorem reject_requires_notes:
  "(trim x = []) = list_all is_white_space x
   \<and> (trim (rejectionNotes st) = [] \<longrightarrow> handleReject n cat s now st d = Some (st, d))
   \<and> (rejectingItemId st = Some i \<and> trim (rejectionNotes st) \<noteq> []
        \<and> list_all (\<lambda>c. content_type_check (c_content_type c)) (content_items d) \<longrightarrow>
      handleReject (Suc n) final_catalog (authenticated_as u) now st d =
        Some (st\<lparr>rejectingItemId := None, rejectionNotes := []\<rparr>,
              d\<lparr>content_items :=
                map (\<lambda>c. if c_id c = i \<and> (c_assigned_to c = Some u \<or> has_admin_flag d u)
                          then c\<lparr>c_status := Some ''Rejected'',
                                 c_rejection_notes := Some (rejectionNotes st),
                                 c_rejected_at := Some now\<rparr>
                          else c)
                  (content_items d)\<rparr>))"
proof -
  have none: "trim (rejectionNotes st) = [] \<longrightarrow> handleReject n cat s now st d = Some (st, d)"
    by (simp add: handleReject_def split: option.splits)
  have some: "rejectingItemId st = Some i \<and> trim (rejectionNotes st) \<noteq> []
        \<and> list_all (\<lambda>c. content_type_check (c_content_type c)) (content_items d) \<longrightarrow>
      handleReject (Suc n) final_catalog (authenticated_as u) now st d =
        Some (st\<lparr>rejectingItemId := None, rejectionNotes := []\<rparr>,
              d\<lparr>content_items :=
                map (\<lambda>c. if c_id c = i \<and> (c_assigned_to c = Some u \<or> has_admin_flag d u)
                          then c\<lparr>c_status := Some ''Rejected'',
                                 c_rejection_notes := Some (rejectionNotes st),
                                 c_rejected_at := Some now\<rparr>
                          else c)
                  (content_items d)\<rparr>)"
  proof
    assume h: "rejectingItemId st = Some i \<and> trim (rejectionNotes st) \<noteq> []
        \<and> list_all (\<lambda>c. content_type_check (c_content_type c)) (content_items d)"
    then have wf: "list_all (\<lambda>c. content_type_check (c_content_type c)) (content_items d)"
      by blast
    have upd: "update_content_items (Suc n) final_catalog d (authenticated_as u)
        (reject_update (rejectionNotes st) now) i =
        Some (Inr (d\<lparr>content_items :=
                map (\<lambda>c. if c_id c = i \<and> (c_assigned_to c = Some u \<or> has_admin_flag d u)
                          then c\<lparr>c_status := Some ''Rejected'',
                                 c_rejection_notes := Some (rejectionNotes st),
                                 c_rejected_at := Some now\<rparr>
                          else c)
                  (content_items d)\<rparr>))"
      unfolding update_content_items_final update_rows_reject [OF wf] by simp
    from h show "handleReject (Suc n) final_catalog (authenticated_as u) now st d =
        Some (st\<lparr>rejectingItemId := None, rejectionNotes := []\<rparr>,
              d\<lparr>content_items :=
                map (\<lambda>c. if c_id c = i \<and> (c_assigned_to c = Some u \<or> has_admin_flag d u)
                          then c\<lparr>c_status := Some ''Rejected'',
                                 c_rejection_notes := Some (rejectionNotes st),
                                 c_rejected_at := Some now\<rparr>
                          else c)
                  (content_items d)\<rparr>)"
      by (simp add: handleReject_def upd)
  qed
  from trim_empty_iff [of x] none some show ?thesis by blast
qed

theorem reject_requires_notes_witness:
  "trim (rejectionNotes (example_state\<lparr>rejectionNotes := ''  ''\<rparr>)) = []
   \<and> handleReject (Suc 0) final_catalog (authenticated_as 2) 7
        (example_state\<lparr>rejectionNotes := ''  ''\<rparr>) example_db
       = Some (example_state\<lparr>rejectionNotes := ''  ''\<rparr>, example_db)
   \<and> rejectingItemId example_state = Some 10
   \<and> trim (rejectionNotes example_state) \<noteq> []
   \<and> list_all (\<lambda>c. content_type_check (c_content_type c)) (content_items example_db)
   \<and> handleReject (Suc 0) final_catalog (authenticated_as 2) 7 example_state example_db
       = Some (example_state\<lparr>rejectingItemId := None, rejectionNotes := []\<rparr>,
               example_db\<lparr>content_items :=
                 [example_item\<lparr>c_status := Some ''Rejected'',
                    c_rejection_notes := Some ''Wrong logo'', c_rejected_at := Some 7\<rparr>]\<rparr>)
   \<and> handleReject (Suc 0) final_catalog (authenticated_as 3) 7 example_state example_db
       = Some (example_state\<lparr>rejectingItemId := None, rejectionNotes := []\<rparr>,
               example_db\<lparr>content_items := [example_item]\<rparr>)"
proof -
  let ?blank = "example_state\<lparr>rejectionNotes := ''  ''\<rparr>"
  have blank: "trim (rejectionNotes ?blank) = []"
    by (simp add: trim_empty_iff is_white_space_def)
  have chosen: "rejectingItemId example_state = Some 10"
    by (simp add: example_state_def)
  have filled: "trim (rejectionNotes example_state) \<noteq> []"
    by (simp add: trim_empty_iff is_white_space_def example_state_def)
  have wf: "list_all (\<lambda>c. content_type_check (c_content_type c)) (content_items example_db)"
    by (simp add: example_simps content_type_check_def)
  note at_example = reject_requires_notes [where d = example_db and now = 7 and n = 0
      and cat = final_catalog and x = "[]"]
  note at_blank = reject_requires_notes [where d = example_db and now = 7 and n = "Suc 0"
      and cat = final_catalog and x = "[]" and st = ?blank and s = "authenticated_as 2"]
  have unchanged: "handleReject (Suc 0) final_catalog (authenticated_as 2) 7 ?blank example_db
       = Some (?blank, example_db)"
    using at_blank blank by blast
  have assignee: "handleReject (Suc 0) final_catalog (authenticated_as 2) 7 example_state example_db
       = Some (example_state\<lparr>rejectingItemId := None, rejectionNotes := []\<rparr>,
               example_db\<lparr>content_items :=
                 [example_item\<lparr>c_status := Some ''Rejected'',
                    c_rejection_notes := Some ''Wrong logo'', c_rejected_at := Some 7\<rparr>]\<rparr>)"
    using at_example [of example_state _ 10 2] chosen filled wf
    by (simp add: example_simps example_state_def)
  have stranger: "handleReject (Suc 0) final_catalog (authenticated_as 3) 7 example_state example_db
       = Some (example_state\<lparr>rejectingItemId := None, rejectionNotes := []\<rparr>,
               example_db\<lparr>content_items := [example_item]\<rparr>)"
    using at_example [of example_state _ 10 3] chosen filled wf
    by (simp add: example_simps example_state_def)
  from blank unchanged chosen filled wf assignee stranger show ?thesis by blast
qed

end
